theory Spec2Isabelle
  imports Complex_Main
begin

section \<open>The PDF generator for the API documentation\<close>

text \<open>
  The program is one Python function, \<open>create_api_pdf\<close> (file
  \<open>generate_pdf_direct.py\<close>). It creates a document template for a fixed file name,
  fills a list \<open>elements\<close> with the blocks of the document by a long run of
  \<open>elements.append\<close> calls, and hands the list to \<open>doc.build\<close> of the layout library.

  Python strings are modelled as \<open>string\<close>, holding the UTF-8 bytes of the text: a
  character outside ASCII (the emoji of the headings, the check marks and arrows) is written
  as its bytes, \<open>CHR 0x..\<close>. Python numbers are modelled as rationals, the exact values of
  the decimal literals of the source; the numeric bounds proved below hold with a margin far
  larger than the rounding of Python's floating point numbers.
\<close>

subsection \<open>Units, colours and styles\<close>

text \<open>
  Lengths are in points, the unit of the layout library: \<open>reportlab.lib.units.inch\<close> is
  72, the library's own millimetre is \<open>inch / 25.4\<close>, and \<open>reportlab.lib.pagesizes.A4\<close>
  is 210 by 297 of these millimetres. The source imports \<open>inch\<close> and \<open>A4\<close>; it does
  not import the library's millimetre but defines a local \<open>mm\<close> (see \<open>doc\<close> below).
\<close>

definition inch :: rat where
  "inch = 72"

definition units_mm :: rat where
  "units_mm = inch / 25.4"

definition A4 :: "rat \<times> rat" where
  "A4 = (210 * units_mm, 297 * units_mm)"

datatype color = HexColor string | whitesmoke | white

datatype align = TA_LEFT | TA_CENTER | TA_RIGHT | TA_JUSTIFY

text \<open>The keyword arguments the source passes to \<open>ParagraphStyle\<close>, in the order written.\<close>

datatype attr =
    fontSize rat
  | textColor color
  | spaceAfter rat
  | spaceBefore rat
  | alignment align
  | fontName string
  | backColor color
  | leftIndent rat
  | borderPadding rat

text \<open>
  A paragraph style is either a style of the library's sample style sheet, known here by
  its name only, or a style made by \<open>ParagraphStyle(name, parent=..., **attrs)\<close>.
\<close>

datatype ParagraphStyle =
    SampleStyle string
  | ParagraphStyle string ParagraphStyle "attr list"

type_synonym stylesheet = "(string \<times> ParagraphStyle) list"

text \<open>
  \<open>getSampleStyleSheet()\<close>: the names the library registers, each bound to the library's
  style of that name. The short aliases that the library also accepts are left out: the
  program uses none.
\<close>

definition getSampleStyleSheet :: stylesheet where
  "getSampleStyleSheet = map (\<lambda>n. (n, SampleStyle n))
     [''Normal'', ''BodyText'', ''Italic'', ''Heading1'', ''Title'', ''Heading2'', ''Heading3'',
      ''Heading4'', ''Heading5'', ''Heading6'', ''Bullet'', ''Definition'', ''Code'',
      ''UnorderedList'', ''OrderedList'']"

text \<open>
  The exceptions the calls of the program can raise: \<open>KeyError\<close> from a style sheet
  lookup \<open>styles[key]\<close>, an error of the layout engine, \<open>OSError\<close> from opening or
  writing the output file, and \<open>UnicodeEncodeError\<close> from printing a text that standard
  output cannot encode.
\<close>

datatype exn = KeyError string | LayoutError string | OSError string | UnicodeEncodeError string

definition and_then :: "exn + 'a \<Rightarrow> ('a \<Rightarrow> exn + 'b) \<Rightarrow> exn + 'b" where
  "and_then r f = (case r of Inl e \<Rightarrow> Inl e | Inr x \<Rightarrow> f x)"

text \<open>\<open>styles[key]\<close>: the style registered under the key, or \<open>KeyError\<close>.\<close>

definition getitem :: "stylesheet \<Rightarrow> string \<Rightarrow> exn + ParagraphStyle" where
  "getitem styles key = (case map_of styles key of None \<Rightarrow> Inl (KeyError key) | Some s \<Rightarrow> Inr s)"

text \<open>\<open>ParagraphStyle(name, parent=styles[key], **attrs)\<close>.\<close>

definition new_ParagraphStyle :: "stylesheet \<Rightarrow> string \<Rightarrow> string \<Rightarrow> attr list \<Rightarrow> exn + ParagraphStyle" where
  "new_ParagraphStyle styles name key attrs =
     and_then (getitem styles key) (\<lambda>parent. Inr (ParagraphStyle name parent attrs))"

subsection \<open>Blocks\<close>

text \<open>
  The arguments of a \<open>TableStyle\<close> command after its name and its two cell coordinates:
  numbers, strings, colours and lists of colours.
\<close>

datatype cmd_arg = NumArg rat | StrArg string | ColorArg color | ColorsArg "color list"

type_synonym ts_cmd = "string \<times> (int \<times> int) \<times> (int \<times> int) \<times> cmd_arg list"

text \<open>
  The Python objects that the program puts into lists: strings (the cells of most tables)
  and the four flowables it constructs. \<open>Table data colWidths cmds\<close> stands for
  \<open>t = Table(data, colWidths=colWidths)\<close> followed by \<open>t.setStyle(TableStyle(cmds))\<close>.
\<close>

datatype obj =
    Str string
  | Paragraph string ParagraphStyle
  | Spacer rat rat
  | PageBreak
  | Table "obj list list" "rat list" "ts_cmd list"

subsection \<open>The document template (source lines 18 to 28)\<close>

record SimpleDocTemplate =
  filename :: string
  pagesize :: "rat \<times> rat"
  rightMargin :: rat
  leftMargin :: rat
  topMargin :: rat
  bottomMargin :: rat
  title :: string

definition pdf_filename :: string where
  "pdf_filename = ''API_DOCUMENTATION.pdf''"

text \<open>The local variable \<open>mm\<close> of the source, commented there as "mm to inch conversion".\<close>

definition mm :: rat where
  "mm = 0.0393701"

definition doc :: SimpleDocTemplate where
  "doc = \<lparr>filename = pdf_filename, pagesize = A4,
           rightMargin = 15 * mm, leftMargin = 15 * mm,
           topMargin = 20 * mm, bottomMargin = 20 * mm,
           title = ''PHRMA API Documentation''\<rparr>"

text \<open>
  The width left for content: the page width minus the two side margins (the library
  keeps it as \<open>doc.width\<close>).
\<close>

definition content_width :: "SimpleDocTemplate \<Rightarrow> rat" where
  "content_width d = fst (pagesize d) - leftMargin d - rightMargin d"

subsection \<open>The custom styles (source lines 33 to 85)\<close>

record custom_styles =
  title_style :: ParagraphStyle
  heading_style :: ParagraphStyle
  subheading_style :: ParagraphStyle
  body_style :: ParagraphStyle
  code_style :: ParagraphStyle

definition define_styles :: "stylesheet \<Rightarrow> exn + custom_styles" where
  "define_styles styles =
   and_then (new_ParagraphStyle styles ''CustomTitle'' ''Heading1'' [fontSize 28, textColor (HexColor ''#FFFFFF''), spaceAfter 6, alignment TA_CENTER, fontName ''Helvetica-Bold'']) (\<lambda>title_style'.
   and_then (new_ParagraphStyle styles ''CustomHeading'' ''Heading2'' [fontSize 16, textColor (HexColor ''#FFFFFF''), spaceAfter 12, spaceBefore 12, fontName ''Helvetica-Bold'', backColor (HexColor ''#667eea'')]) (\<lambda>heading_style'.
   and_then (new_ParagraphStyle styles ''CustomSubHeading'' ''Heading3'' [fontSize 13, textColor (HexColor ''#333333''), spaceAfter 10, spaceBefore 10, fontName ''Helvetica-Bold'']) (\<lambda>subheading_style'.
   and_then (new_ParagraphStyle styles ''CustomBody'' ''BodyText'' [fontSize 10, textColor (HexColor ''#333333''), spaceAfter 8, alignment TA_JUSTIFY]) (\<lambda>body_style'.
   and_then (new_ParagraphStyle styles ''CodeStyle'' ''Normal'' [fontSize 8, textColor (HexColor ''#d4d4d4''), backColor (HexColor ''#1e1e1e''), spaceAfter 6, fontName ''Courier'']) (\<lambda>code_style'.
   Inr \<lparr>title_style = title_style', heading_style = heading_style',
        subheading_style = subheading_style', body_style = body_style',
        code_style = code_style'\<rparr>)))))"

text \<open>
  The sections below follow the banners of the source. Each takes the list built so far and
  returns it extended; consecutive \<open>elements.append(x)\<close> calls are written as one
  \<open>elements @ [x, ...]\<close>, a \<open>for\<close> loop as a \<open>fold\<close> over its list, and a style made
  in the middle of a section is looked up at that point. String variables of the source are
  written where they are used.
\<close>

subsection \<open>Title page (source lines 87 to 132)\<close>

definition metadata_data :: "obj list list" where
  \<open>metadata_data =
  [[Str ''API Version'', Str ''v2''],
   [Str ''Generated'', Str ''February 17, 2026''],
   [Str ''Status'', Str ''Active''],
   [Str ''Endpoints'', Str ''30+'']]\<close>

definition metadata_table :: "obj" where
  \<open>metadata_table =
  Table metadata_data [2 * inch, 2 * inch]
   [(''BACKGROUND'', (0, 0), (-1, -1), [ColorArg (HexColor ''#f0f4ff'')]),
    (''TEXTCOLOR'', (0, 0), (-1, -1), [ColorArg (HexColor ''#333333'')]),
    (''ALIGN'', (0, 0), (-1, -1), [StrArg ''CENTER'']),
    (''FONTNAME'', (0, 0), (-1, 0), [StrArg ''Helvetica-Bold'']),
    (''FONTSIZE'', (0, 0), (-1, -1), [NumArg 11]),
    (''BOTTOMPADDING'', (0, 0), (-1, -1), [NumArg 12]),
    (''TOPPADDING'', (0, 0), (-1, -1), [NumArg 12]),
    (''GRID'', (0, 0), (-1, -1), [NumArg 1, ColorArg (HexColor ''#ddd'')])]\<close>

definition title_page :: "stylesheet \<Rightarrow> custom_styles \<Rightarrow> obj list \<Rightarrow> exn + obj list" where
  \<open>title_page styles S elements =
  (let elements = elements @
     [Spacer 1 (1.5 * inch)] in
   and_then (new_ParagraphStyle styles ''Subtitle'' ''Normal'' [fontSize 16, textColor (HexColor ''#FFFFFF''), alignment TA_CENTER]) (\<lambda>subtitle_style.
   let title_data =
     [[Paragraph ([CHR 0xF0, CHR 0x9F, CHR 0x8F, CHR 0xA5] @ '' PHRMA Production App'') (title_style S)],
      [Paragraph ''Complete API Documentation'' subtitle_style]] in
   let title_table =
     Table title_data [7 * inch]
   [(''BACKGROUND'', (0, 0), (-1, -1), [ColorArg (HexColor ''#667eea'')]),
      (''ALIGN'', (0, 0), (-1, -1), [StrArg ''CENTER'']),
      (''VALIGN'', (0, 0), (-1, -1), [StrArg ''MIDDLE'']),
      (''LEFTPADDING'', (0, 0), (-1, -1), [NumArg 20]),
      (''RIGHTPADDING'', (0, 0), (-1, -1), [NumArg 20]),
      (''TOPPADDING'', (0, 0), (-1, -1), [NumArg 20]),
      (''BOTTOMPADDING'', (0, 0), (-1, -1), [NumArg 20])] in
   let elements = elements @
     [title_table,
      Spacer 1 (0.5 * inch),
      metadata_table,
      PageBreak] in
   Inr elements))\<close>

subsection \<open>Table of contents (source lines 134 to 156)\<close>

definition toc_items :: "string list" where
  \<open>toc_items =
  [''1. Authentication & Authorization'',
   ''2. User Management'',
   ''3. Medicine Store'',
   ''4. Admin Store Management'',
   ''5. Items Management'',
   ''6. Location Services'',
   ''7. Unit Management'',
   ''8. GST Management'',
   ''9. Orders'',
   ''10. Payments'',
   ''11. Notifications'',
   ''12. Response Formats'']\<close>

definition table_of_contents :: "stylesheet \<Rightarrow> custom_styles \<Rightarrow> obj list \<Rightarrow> exn + obj list" where
  \<open>table_of_contents styles S elements =
  (let elements = elements @
     [Paragraph ([CHR 0xF0, CHR 0x9F, CHR 0x93, CHR 0x91] @ '' Table of Contents'') (heading_style S)] in
   let elements = fold (\<lambda>item elements. elements @
         [Paragraph item (body_style S),
          Spacer 1 (0.1 * inch)])
       toc_items elements in
   let elements = elements @
     [PageBreak] in
   Inr elements)\<close>

subsection \<open>Authentication section (source lines 158 to 235)\<close>

definition auth_data :: "obj list list" where
  \<open>auth_data =
  [[Str ''Method'', Str ''Description'', Str ''Usage''],
   [Str ''JWT Token'', Str ''Bearer token in Authorization header or cookie'', Str ''Authorization: Bearer {token}''],
   [Str ''Gateway Mode'', Str ''Headers from API Gateway'', Str ''X-User-ID, X-User-Role, X-User-Email'']]\<close>

definition auth_table :: "obj" where
  \<open>auth_table =
  Table auth_data [1.5 * inch, 2.5 * inch, 2.5 * inch]
   [(''BACKGROUND'', (0, 0), (-1, 0), [ColorArg (HexColor ''#667eea'')]),
    (''TEXTCOLOR'', (0, 0), (-1, 0), [ColorArg (whitesmoke)]),
    (''ALIGN'', (0, 0), (-1, -1), [StrArg ''LEFT'']),
    (''VALIGN'', (0, 0), (-1, -1), [StrArg ''TOP'']),
    (''FONTNAME'', (0, 0), (-1, 0), [StrArg ''Helvetica-Bold'']),
    (''FONTSIZE'', (0, 0), (-1, 0), [NumArg 10]),
    (''BOTTOMPADDING'', (0, 0), (-1, 0), [NumArg 10]),
    (''TOPPADDING'', (0, 0), (-1, 0), [NumArg 10]),
    (''BACKGROUND'', (0, 1), (-1, -1), [ColorArg (HexColor ''#f9f9f9'')]),
    (''GRID'', (0, 0), (-1, -1), [NumArg 1, ColorArg (HexColor ''#ddd'')]),
    (''FONTSIZE'', (0, 1), (-1, -1), [NumArg 9]),
    (''ROWBACKGROUNDS'', (0, 1), (-1, -1), [ColorsArg [white, HexColor ''#f9f9f9'']])]\<close>

definition headers_data :: "obj list list" where
  \<open>headers_data =
  [[Str ''Header'', Str ''Type'', Str ''Description''],
   [Str ''Content-Type'', Str ''application/json'', Str ''Required for POST/PUT requests''],
   [Str ''Authorization'', Str ''Bearer {token}'', Str ''For authenticated endpoints''],
   [Str ''X-User-ID'', Str ''String (UUID)'', Str ''Optional (Gateway mode)''],
   [Str ''X-User-Role'', Str ''admin|user|manager'', Str ''Optional (Gateway mode)'']]\<close>

definition headers_table :: "obj" where
  \<open>headers_table =
  Table headers_data [1.8 * inch, 2.2 * inch, 2.5 * inch]
   [(''BACKGROUND'', (0, 0), (-1, 0), [ColorArg (HexColor ''#667eea'')]),
    (''TEXTCOLOR'', (0, 0), (-1, 0), [ColorArg (whitesmoke)]),
    (''ALIGN'', (0, 0), (-1, -1), [StrArg ''LEFT'']),
    (''FONTNAME'', (0, 0), (-1, 0), [StrArg ''Helvetica-Bold'']),
    (''FONTSIZE'', (0, 0), (-1, 0), [NumArg 10]),
    (''BOTTOMPADDING'', (0, 0), (-1, 0), [NumArg 10]),
    (''BACKGROUND'', (0, 1), (-1, -1), [ColorArg (HexColor ''#f9f9f9'')]),
    (''GRID'', (0, 0), (-1, -1), [NumArg 1, ColorArg (HexColor ''#ddd'')]),
    (''FONTSIZE'', (0, 1), (-1, -1), [NumArg 9]),
    (''ROWBACKGROUNDS'', (0, 1), (-1, -1), [ColorsArg [white, HexColor ''#f9f9f9'']])]\<close>

definition roles_data :: "obj list list" where
  \<open>roles_data =
  [[Str ''Role'', Str ''Permissions'', Str ''Endpoints Access''],
   [Str ''admin'', Str ''Full access, verification, store management'', Str ''/admin/*, /units/*, /gst/*''],
   [Str ''user'', Str ''Regular user, can manage own store'', Str ''/medicine-store/*, /items/*, /orders/*''],
   [Str ''manager'', Str ''Store manager, manages items and orders'', Str ''/items/*, /orders/*, /payments/*'']]\<close>

definition roles_table :: "obj" where
  \<open>roles_table =
  Table roles_data [1.2 * inch, 2.5 * inch, 2.8 * inch]
   [(''BACKGROUND'', (0, 0), (-1, 0), [ColorArg (HexColor ''#667eea'')]),
    (''TEXTCOLOR'', (0, 0), (-1, 0), [ColorArg (whitesmoke)]),
    (''ALIGN'', (0, 0), (-1, -1), [StrArg ''LEFT'']),
    (''VALIGN'', (0, 0), (-1, -1), [StrArg ''TOP'']),
    (''FONTNAME'', (0, 0), (-1, 0), [StrArg ''Helvetica-Bold'']),
    (''FONTSIZE'', (0, 0), (-1, 0), [NumArg 10]),
    (''BOTTOMPADDING'', (0, 0), (-1, 0), [NumArg 10]),
    (''BACKGROUND'', (0, 1), (-1, -1), [ColorArg (HexColor ''#f9f9f9'')]),
    (''GRID'', (0, 0), (-1, -1), [NumArg 1, ColorArg (HexColor ''#ddd'')]),
    (''FONTSIZE'', (0, 1), (-1, -1), [NumArg 9]),
    (''ROWBACKGROUNDS'', (0, 1), (-1, -1), [ColorsArg [white, HexColor ''#f9f9f9'']])]\<close>

definition authentication_section :: "stylesheet \<Rightarrow> custom_styles \<Rightarrow> obj list \<Rightarrow> exn + obj list" where
  \<open>authentication_section styles S elements =
  (let elements = elements @
     [Paragraph ([CHR 0xF0, CHR 0x9F, CHR 0x94, CHR 0x90] @ '' Authentication & Authorization'') (heading_style S),
      Paragraph ''Authentication Methods'' (subheading_style S),
      auth_table,
      Spacer 1 (0.2 * inch),
      Paragraph ''Required Headers'' (subheading_style S),
      headers_table,
      Spacer 1 (0.2 * inch),
      Paragraph ''User Roles & Permissions'' (subheading_style S),
      roles_table,
      PageBreak] in
   Inr elements)\<close>

subsection \<open>User endpoints (source lines 237 to 301)\<close>

definition user_endpoints :: "stylesheet \<Rightarrow> custom_styles \<Rightarrow> obj list \<Rightarrow> exn + obj list" where
  \<open>user_endpoints styles S elements =
  (let elements = elements @
     [Paragraph ([CHR 0xF0, CHR 0x9F, CHR 0x91, CHR 0xA4] @ '' User Management Endpoints'') (heading_style S),
      Paragraph ''POST /api/v2/user/login'' (subheading_style S),
      Paragraph ''Authenticate user with email and password. Returns JWT token for subsequent requests.'' (body_style S),
      Paragraph (''Request Body:'' @ [CHR 0x0A] @ ''- email (String, Required): User email address'' @ [CHR 0x0A] @ ''- password (String, Required): User password (minimum 8 characters)'' @ [CHR 0x0A] @ ''- fcmToken (String, Optional): Firebase Cloud Messaging token for push notifications'') (code_style S),
      Spacer 1 (0.1 * inch),
      Paragraph ''Request Example:'' (subheading_style S),
      Paragraph ''{"email": "user@example.com", "password": "securePassword123", "fcmToken": "eO...K1"}'' (code_style S),
      Spacer 1 (0.1 * inch),
      Paragraph ''Success Response (200 OK):'' (body_style S),
      Paragraph ''{"status": 200, "message": "Login Successful", "data": {"user": {"_id": "507f1f77bcf86cd799439011", "name": "John Doe", "email": "user@example.com", "phone": "+919876543210", "role": "user", "token": "eyJhbGc...iOiJIUzI1NiIsInR5cCI6IkpXVCJ9"}}'' (code_style S),
      Spacer 1 (0.15 * inch)] in
   and_then (new_ParagraphStyle styles ''ReqBox'' ''Normal'' [fontSize 9, textColor (HexColor ''#333''), backColor (HexColor ''#fff3cd''), leftIndent 10, spaceAfter 10, borderPadding 10]) (\<lambda>req_box_style.
   let elements = elements @
     [Paragraph (''<b>Requirements:</b><br/>'' @ [CHR 0xE2, CHR 0x9C, CHR 0x93] @ '' Email must be valid format<br/>'' @ [CHR 0xE2, CHR 0x9C, CHR 0x93] @ '' Password must be at least 8 characters<br/>'' @ [CHR 0xE2, CHR 0x9C, CHR 0x93] @ '' User must be registered in the system<br/>'' @ [CHR 0xE2, CHR 0x9C, CHR 0x93] @ '' Account must not be suspended'') req_box_style,
      Spacer 1 (0.1 * inch),
      Paragraph ''POST /api/v2/user/logout'' (subheading_style S),
      Paragraph ''Logout user by invalidating the JWT token. Clears authentication cookie.'' (body_style S)] in
   and_then (new_ParagraphStyle styles ''Auth'' ''Normal'' [fontSize 9, textColor (HexColor ''#721c24''), backColor (HexColor ''#f8d7da''), leftIndent 10, spaceAfter 10]) (\<lambda>auth_style.
   let elements = elements @
     [Paragraph ''<b>Authentication Required:</b> Bearer Token or Valid JWT Cookie'' auth_style,
      Spacer 1 (0.2 * inch),
      Paragraph ''POST /api/v2/user/forgot/password'' (subheading_style S),
      Paragraph ''Request password reset. Sends OTP to registered email address.'' (body_style S),
      Paragraph ''Request Body: email (String, Required)'' (code_style S),
      Spacer 1 (0.15 * inch),
      Paragraph ''POST /api/v2/user/verifyOtp'' (subheading_style S),
      Paragraph ''Verify OTP sent to email for password reset.'' (body_style S),
      Paragraph ''Request Body: email (String, Required), otp (String, Required)'' (code_style S),
      Spacer 1 (0.15 * inch),
      Paragraph ''POST /api/v2/user/ResetPassword'' (subheading_style S),
      Paragraph ''Reset user password after OTP verification. Internal service only.'' (body_style S)] in
   and_then (new_ParagraphStyle styles ''Auth'' ''Normal'' [fontSize 9, textColor (HexColor ''#721c24''), backColor (HexColor ''#f8d7da''), leftIndent 10, spaceAfter 10]) (\<lambda>auth_style.
   let elements = elements @
     [Paragraph ''<b>Requires:</b> verifyInternalService Middleware'' auth_style,
      PageBreak] in
   Inr elements))))\<close>

subsection \<open>Medicine store (source lines 303 to 355)\<close>

definition store_req_data :: "obj list list" where
  \<open>store_req_data =
  [[Str ''Field'', Str ''Type'', Str ''Required'', Str ''Validation''],
   [Str ''userName'', Str ''String'', Str ''Yes'', Str ''Name of store owner''],
   [Str ''email'', Str ''String'', Str ''Yes'', Str ''Valid email format''],
   [Str ''phone'', Str ''String'', Str ''Yes'', Str ''10-11 digit Indian phone''],
   [Str ''storeName'', Str ''String'', Str ''Yes'', Str ''Official store name''],
   [Str ''storeType'', Str ''String'', Str ''Yes'', Str ''retail|wholesale|chain''],
   [Str ''GSTNumber'', Str ''String'', Str ''Yes'', Str ''Valid 15-digit GST number''],
   [Str ''pharmacyLicence'', Str ''String'', Str ''Yes'', Str ''Valid pharmacy license for state''],
   [Str ''address'', Str ''String'', Str ''Yes'', Str ''Complete address''],
   [Str ''city'', Str ''String'', Str ''Yes'', Str ''Must match pincode''],
   [Str ''state'', Str ''String'', Str ''Yes'', Str ''Must match pincode''],
   [Str ''pincode'', Str ''String'', Str ''Yes'', Str ''6-digit Indian pincode'']]\<close>

definition store_req_table :: "obj" where
  \<open>store_req_table =
  Table store_req_data [1.2 * inch, 1 * inch, 0.8 * inch, 2.3 * inch]
   [(''BACKGROUND'', (0, 0), (-1, 0), [ColorArg (HexColor ''#667eea'')]),
    (''TEXTCOLOR'', (0, 0), (-1, 0), [ColorArg (whitesmoke)]),
    (''ALIGN'', (0, 0), (-1, -1), [StrArg ''LEFT'']),
    (''VALIGN'', (0, 0), (-1, -1), [StrArg ''TOP'']),
    (''FONTNAME'', (0, 0), (-1, 0), [StrArg ''Helvetica-Bold'']),
    (''FONTSIZE'', (0, 0), (-1, 0), [NumArg 9]),
    (''FONTSIZE'', (0, 1), (-1, -1), [NumArg 8]),
    (''BOTTOMPADDING'', (0, 0), (-1, 0), [NumArg 8]),
    (''TOPPADDING'', (0, 0), (-1, 0), [NumArg 8]),
    (''BACKGROUND'', (0, 1), (-1, -1), [ColorArg (HexColor ''#f9f9f9'')]),
    (''GRID'', (0, 0), (-1, -1), [NumArg 1, ColorArg (HexColor ''#ddd'')]),
    (''ROWBACKGROUNDS'', (0, 1), (-1, -1), [ColorsArg [white, HexColor ''#f9f9f9'']])]\<close>

definition medicine_store :: "stylesheet \<Rightarrow> custom_styles \<Rightarrow> obj list \<Rightarrow> exn + obj list" where
  \<open>medicine_store styles S elements =
  (let elements = elements @
     [Paragraph ([CHR 0xF0, CHR 0x9F, CHR 0x92, CHR 0x8A] @ '' Medicine Store Endpoints'') (heading_style S),
      Paragraph ''POST /api/v2/medicine-store/register'' (subheading_style S),
      Paragraph ''Register a new medicine store with complete verification including GST, pharmacy license, and address validation.'' (body_style S),
      Spacer 1 (0.1 * inch),
      store_req_table,
      Spacer 1 (0.15 * inch),
      Paragraph ''Request Example:'' (subheading_style S),
      Paragraph ''{"userName": "Dr. Rajesh Kumar", "email": "rajesh.med@example.com", "phone": "9876543210", "storeName": "Apollo Pharmacy", "storeType": "retail", "GSTNumber": "27AABCU9603R1Z0", "pharmacyLicence": "PL2024000123", "address": "Plot 123, Medical Complex", "city": "Bangalore", "state": "Karnataka", "pincode": "560034"}'' (code_style S),
      Spacer 1 (0.1 * inch)] in
   and_then (new_ParagraphStyle styles ''ReqBox'' ''Normal'' [fontSize 9, textColor (HexColor ''#333''), backColor (HexColor ''#fff3cd''), leftIndent 10, spaceAfter 10]) (\<lambda>req_box_style.
   let elements = elements @
     [Paragraph (''<b>Validation Requirements:</b><br/>'' @ [CHR 0xE2, CHR 0x9C, CHR 0x93] @ '' GST format validation<br/>'' @ [CHR 0xE2, CHR 0x9C, CHR 0x93] @ '' Phone: 10-11 digits, valid Indian format<br/>'' @ [CHR 0xE2, CHR 0x9C, CHR 0x93] @ '' Pharmacy License valid for state<br/>'' @ [CHR 0xE2, CHR 0x9C, CHR 0x93] @ '' Pincode must match city and state<br/>'' @ [CHR 0xE2, CHR 0x9C, CHR 0x93] @ '' Email must be unique<br/>'' @ [CHR 0xE2, CHR 0x9C, CHR 0x93] @ '' Store enters '' @ [CHR 0x27] @ ''pending'' @ [CHR 0x27] @ '' verification status'') req_box_style,
      PageBreak] in
   Inr elements))\<close>

subsection \<open>Admin store (source lines 357 to 386)\<close>

definition admin_endpoints :: "(string \<times> string) list" where
  \<open>admin_endpoints =
  [(''GET /api/v2/admin/stores/pending'', ''Get all stores awaiting verification. Admin only.''),
   (''GET /api/v2/admin/stores/:storeId'', ''Get detailed information about a specific store for verification review.''),
   (''PUT /api/v2/admin/stores/:storeId/status'', ''Update store verification status (approve, reject, suspend).''),
   (''GET /api/v2/admin/stores/stats/verification'', ''Get verification statistics and summary.'')]\<close>

definition admin_store :: "stylesheet \<Rightarrow> custom_styles \<Rightarrow> obj list \<Rightarrow> exn + obj list" where
  \<open>admin_store styles S elements =
  (let elements = elements @
     [Paragraph ([CHR 0xE2, CHR 0x9A, CHR 0x99, CHR 0xEF, CHR 0xB8, CHR 0x8F] @ '' Admin Store Management'') (heading_style S)] in
   let elements = fold (\<lambda>(endpoint, desc) elements. elements @
         [Paragraph endpoint (subheading_style S),
          Paragraph desc (body_style S),
          Spacer 1 (0.1 * inch)])
       admin_endpoints elements in
   let elements = elements @
     [Paragraph ''Status Update Body:'' (subheading_style S),
      Paragraph (''{"action": "approve", "adminRemarks": "All documents verified successfully"}'' @ [CHR 0x0A] @ ''Valid actions: approve|reject|suspend'') (code_style S),
      Spacer 1 (0.1 * inch)] in
   and_then (new_ParagraphStyle styles ''ReqBox'' ''Normal'' [fontSize 9, textColor (HexColor ''#333''), backColor (HexColor ''#fff3cd''), leftIndent 10, spaceAfter 10]) (\<lambda>req_box_style.
   let elements = elements @
     [Paragraph (''<b>Requirements:</b><br/>'' @ [CHR 0xE2, CHR 0x9C, CHR 0x93] @ '' User must have admin role<br/>'' @ [CHR 0xE2, CHR 0x9C, CHR 0x93] @ '' For reject/suspend, adminRemarks is mandatory<br/>'' @ [CHR 0xE2, CHR 0x9C, CHR 0x93] @ '' Once approved, store can add items and process orders'') req_box_style,
      PageBreak] in
   Inr elements))\<close>

subsection \<open>Items (source lines 388 to 414)\<close>

definition items_endpoints :: "(string \<times> string) list" where
  \<open>items_endpoints =
  [(''POST /api/v2/items/add'', ''Create new regular item. Requires authentication and file uploads.''),
   (''POST /api/v2/items/premium'', ''Create premium/featured item with enhanced visibility.''),
   (''PUT /api/v2/items/update/:itemId'', ''Update existing item including images.''),
   (''DELETE /api/v2/items/delete/:itemId'', ''Delete single item (admin only).''),
   (''DELETE /api/v2/items/'', ''Delete all items (admin only - destructive operation).'')]\<close>

definition items_section :: "stylesheet \<Rightarrow> custom_styles \<Rightarrow> obj list \<Rightarrow> exn + obj list" where
  \<open>items_section styles S elements =
  (let elements = elements @
     [Paragraph ([CHR 0xF0, CHR 0x9F, CHR 0x93, CHR 0xA6] @ '' Items Management'') (heading_style S)] in
   let elements = fold (\<lambda>(endpoint, desc) elements. elements @
         [Paragraph endpoint (subheading_style S),
          Paragraph desc (body_style S),
          Spacer 1 (0.08 * inch)])
       items_endpoints elements in
   let elements = elements @
     [Spacer 1 (0.1 * inch)] in
   and_then (new_ParagraphStyle styles ''ReqBox'' ''Normal'' [fontSize 9, textColor (HexColor ''#333''), backColor (HexColor ''#fff3cd''), leftIndent 10, spaceAfter 10]) (\<lambda>req_box_style.
   let elements = elements @
     [Paragraph (''<b>Item Requirements:</b><br/>'' @ [CHR 0xE2, CHR 0x9C, CHR 0x93] @ '' User must be authenticated<br/>'' @ [CHR 0xE2, CHR 0x9C, CHR 0x93] @ '' Must have associated medicine store<br/>'' @ [CHR 0xE2, CHR 0x9C, CHR 0x93] @ '' Store must be verified/approved<br/>'' @ [CHR 0xE2, CHR 0x9C, CHR 0x93] @ '' Images: JPEG/PNG, max 5MB each<br/>'' @ [CHR 0xE2, CHR 0x9C, CHR 0x93] @ '' Price > 0, Quantity '' @ [CHR 0xE2, CHR 0x89, CHR 0xA5] @ '' 0'') req_box_style,
      PageBreak] in
   Inr elements))\<close>

subsection \<open>Location (source lines 416 to 441)\<close>

definition loc_endpoints :: "(string \<times> string) list" where
  \<open>loc_endpoints =
  [(''GET /api/v2/location/states'', ''Get list of all Indian states and union territories.''),
   (''GET /api/v2/location/cities/:state'', ''Get list of cities for a given state.''),
   (''GET /api/v2/location/pincode/:pincode'', ''Get city and state information for a given pincode.'')]\<close>

definition location_section :: "stylesheet \<Rightarrow> custom_styles \<Rightarrow> obj list \<Rightarrow> exn + obj list" where
  \<open>location_section styles S elements =
  (let elements = elements @
     [Paragraph ([CHR 0xF0, CHR 0x9F, CHR 0x97, CHR 0xBA, CHR 0xEF, CHR 0xB8, CHR 0x8F] @ '' Location Services'') (heading_style S)] in
   let elements = fold (\<lambda>(endpoint, desc) elements. elements @
         [Paragraph endpoint (subheading_style S),
          Paragraph desc (body_style S),
          Spacer 1 (0.1 * inch)])
       loc_endpoints elements in
   let elements = elements @
     [Paragraph (''Example: /api/v2/location/pincode/560034'' @ [CHR 0x0A] @ ''Response: {"status": 200, "data": {"pincode": "560034", "city": "Bangalore", "state": "Karnataka"}}'') (code_style S),
      Spacer 1 (0.1 * inch)] in
   and_then (new_ParagraphStyle styles ''Note'' ''Normal'' [fontSize 9, textColor (HexColor ''#0066cc''), backColor (HexColor ''#e7f3ff''), leftIndent 10, spaceAfter 10]) (\<lambda>note_style.
   let elements = elements @
     [Paragraph ''<b>Note:</b> Public endpoints, no authentication required.'' note_style,
      PageBreak] in
   Inr elements))\<close>

subsection \<open>Units (source lines 443 to 481)\<close>

definition parent_units :: "(string \<times> string) list" where
  \<open>parent_units =
  [(''POST /api/v2/units/add-parent-units'', ''Create new parent unit (base measurement unit).''),
   (''GET /api/v2/units/get-parent-units'', ''Get all parent units (admin only).''),
   (''PUT /api/v2/units/update-parent-units/:id'', ''Update parent unit (admin only).''),
   (''DELETE /api/v2/units/delete-parent-units/:id'', ''Delete parent unit (admin only).'')]\<close>

definition child_units :: "(string \<times> string) list" where
  \<open>child_units =
  [(''POST /api/v2/units/add-child-units'', ''Create child unit (derived from parent unit).''),
   (''GET /api/v2/units/get-child-units'', ''Get all child units (admin only).''),
   (''PUT /api/v2/units/update-child-units/:id'', ''Update child unit (admin only).''),
   (''DELETE /api/v2/units/delete-child-units/:id'', ''Delete child unit (admin only).'')]\<close>

definition units_section :: "stylesheet \<Rightarrow> custom_styles \<Rightarrow> obj list \<Rightarrow> exn + obj list" where
  \<open>units_section styles S elements =
  (let elements = elements @
     [Paragraph ([CHR 0xF0, CHR 0x9F, CHR 0x93, CHR 0x8F] @ '' Unit Management'') (heading_style S),
      Paragraph ''Parent Units (e.g., Kilogram, Liter)'' (subheading_style S)] in
   let elements = fold (\<lambda>(endpoint, desc) elements. elements @
         [Paragraph (''<b>'' @ endpoint @ ''</b>'') (body_style S),
          Paragraph desc (body_style S),
          Spacer 1 (0.05 * inch)])
       parent_units elements in
   let elements = elements @
     [Spacer 1 (0.15 * inch),
      Paragraph ''Child Units (e.g., 100ml, 500g)'' (subheading_style S)] in
   let elements = fold (\<lambda>(endpoint, desc) elements. elements @
         [Paragraph (''<b>'' @ endpoint @ ''</b>'') (body_style S),
          Paragraph desc (body_style S),
          Spacer 1 (0.05 * inch)])
       child_units elements in
   let elements = elements @
     [Spacer 1 (0.1 * inch),
      Paragraph (''Child Unit Example:'' @ [CHR 0x0A] @ ''{"childUnitName": "100 Milliliters", "childUnitSymbol": "100ml", "parentUnitId": "507f...", "conversionFactor": 0.1}'') (code_style S),
      PageBreak] in
   Inr elements)\<close>

subsection \<open>GST (source lines 483 to 504)\<close>

definition gst_endpoints :: "(string \<times> string) list" where
  \<open>gst_endpoints =
  [(''POST /api/v2/gst/add'', ''Add new GST rate for product category.''),
   (''PUT /api/v2/gst/update/:gstId'', ''Update existing GST rate.''),
   (''DELETE /api/v2/gst/delete/:gstId'', ''Delete GST rate.''),
   (''GET /api/v2/gst/'', ''Get all GST rates.'')]\<close>

definition gst_section :: "stylesheet \<Rightarrow> custom_styles \<Rightarrow> obj list \<Rightarrow> exn + obj list" where
  \<open>gst_section styles S elements =
  (let elements = elements @
     [Paragraph ([CHR 0xF0, CHR 0x9F, CHR 0x92, CHR 0xB0] @ '' GST Rate Management'') (heading_style S)] in
   let elements = fold (\<lambda>(endpoint, desc) elements. elements @
         [Paragraph endpoint (subheading_style S),
          Paragraph desc (body_style S),
          Spacer 1 (0.08 * inch)])
       gst_endpoints elements in
   let elements = elements @
     [Paragraph (''Add GST Example:'' @ [CHR 0x0A] @ ''{"productCategory": "Medicines", "gstRate": 5, "description": "GST rate for medicines and pharmaceuticals"}'' @ [CHR 0x0A, CHR 0x0A] @ ''Valid rates in India: 0%, 5%, 12%, 18%, 28%'') (code_style S),
      PageBreak] in
   Inr elements)\<close>

subsection \<open>Orders (source lines 506 to 532)\<close>

definition orders_section :: "stylesheet \<Rightarrow> custom_styles \<Rightarrow> obj list \<Rightarrow> exn + obj list" where
  \<open>orders_section styles S elements =
  (let elements = elements @
     [Paragraph ([CHR 0xF0, CHR 0x9F, CHR 0x93, CHR 0x8B] @ '' Orders'') (heading_style S),
      Paragraph ''POST /api/v2/orders'' (subheading_style S),
      Paragraph ''Create new order with automatic notification to user.'' (body_style S),
      Paragraph (''Request Body:'' @ [CHR 0x0A] @ ''- userId (String, Required): User ID'' @ [CHR 0x0A] @ ''- items (Array, Required): Order items with quantity and price'' @ [CHR 0x0A] @ ''- totalAmount (Number, Required): Order total'' @ [CHR 0x0A] @ ''- deliveryAddress (String, Optional): Delivery address'') (code_style S),
      Spacer 1 (0.1 * inch),
      Paragraph ''{"userId": "507f...", "items": [{"itemId": "507f...", "quantity": 2, "price": 299}], "totalAmount": 598, "deliveryAddress": "123 Main St, Bangalore"}'' (code_style S),
      Spacer 1 (0.1 * inch),
      Paragraph ''PATCH /api/v2/orders/:orderId/status'' (subheading_style S),
      Paragraph ''Update order status and notify user.'' (body_style S),
      Paragraph (''Status Flow: pending '' @ [CHR 0xE2, CHR 0x86, CHR 0x92] @ '' processing '' @ [CHR 0xE2, CHR 0x86, CHR 0x92] @ '' shipped '' @ [CHR 0xE2, CHR 0x86, CHR 0x92] @ '' delivered '' @ [CHR 0xE2, CHR 0x86, CHR 0x92] @ '' cancelled'' @ [CHR 0x0A, CHR 0x0A] @ ''Example: {"status": "shipped", "userId": "507f..."}'') (code_style S),
      PageBreak] in
   Inr elements)\<close>

subsection \<open>Payments (source lines 534 to 558)\<close>

definition payments_section :: "stylesheet \<Rightarrow> custom_styles \<Rightarrow> obj list \<Rightarrow> exn + obj list" where
  \<open>payments_section styles S elements =
  (let elements = elements @
     [Paragraph ([CHR 0xF0, CHR 0x9F, CHR 0x92, CHR 0xB3] @ '' Payments'') (heading_style S),
      Paragraph ''POST /api/v2/payments'' (subheading_style S),
      Paragraph ''Process payment and send confirmation notification.'' (body_style S),
      Paragraph (''Request Body:'' @ [CHR 0x0A] @ ''- userId (String, Required)'' @ [CHR 0x0A] @ ''- orderId (String, Required)'' @ [CHR 0x0A] @ ''- amount (Number, Required)'' @ [CHR 0x0A] @ ''- paymentMethod (String, Required): credit_card|debit_card|upi|net_banking'') (code_style S),
      Spacer 1 (0.1 * inch),
      Paragraph ''POST /api/v2/payments/:paymentId/refund'' (subheading_style S),
      Paragraph ''Process refund. Reflects in 5-7 business days.'' (body_style S),
      Paragraph ''{"userId": "507f...", "amount": 598, "reason": "Order cancelled by customer"}'' (code_style S),
      Spacer 1 (0.1 * inch),
      Paragraph ''POST /api/v2/payments/failed'' (subheading_style S),
      Paragraph ''Handle failed payment and notify user.'' (body_style S),
      PageBreak] in
   Inr elements)\<close>

subsection \<open>Notifications (source lines 560 to 588)\<close>

definition notif_endpoints :: "(string \<times> string) list" where
  \<open>notif_endpoints =
  [(''GET /api/v2/notification-service/health'', ''Check notification service health (public).''),
   (''POST /api/v2/notification-service/send-to-user'', ''Send to authenticated user (requires auth).''),
   (''POST /api/v2/notification-service/send-to-users'', ''Send to multiple users by userIds array.''),
   (''POST /api/v2/notification-service/send-bulk'', ''Send bulk notifications (up to 1000 users).'')]\<close>

definition notifications_section :: "stylesheet \<Rightarrow> custom_styles \<Rightarrow> obj list \<Rightarrow> exn + obj list" where
  \<open>notifications_section styles S elements =
  (let elements = elements @
     [Paragraph ([CHR 0xF0, CHR 0x9F, CHR 0x94, CHR 0x94] @ '' Notifications'') (heading_style S)] in
   let elements = fold (\<lambda>(endpoint, desc) elements. elements @
         [Paragraph endpoint (subheading_style S),
          Paragraph desc (body_style S),
          Spacer 1 (0.08 * inch)])
       notif_endpoints elements in
   let elements = elements @
     [Paragraph (''Notification Body:'' @ [CHR 0x0A] @ ''{"title": "Order Confirmed", "body": "Your order #ORD123 has been confirmed", "data": {"orderId": "ORD123", "screen": "OrderDetails"}}'') (code_style S),
      Spacer 1 (0.1 * inch)] in
   and_then (new_ParagraphStyle styles ''ReqBox'' ''Normal'' [fontSize 9, textColor (HexColor ''#333''), backColor (HexColor ''#fff3cd''), leftIndent 10, spaceAfter 10]) (\<lambda>req_box_style.
   let elements = elements @
     [Paragraph (''<b>Notification Requirements:</b><br/>'' @ [CHR 0xE2, CHR 0x9C, CHR 0x93] @ '' Title under 100 characters<br/>'' @ [CHR 0xE2, CHR 0x9C, CHR 0x93] @ '' Body should be brief and meaningful<br/>'' @ [CHR 0xE2, CHR 0x9C, CHR 0x93] @ '' Data object optional with custom properties<br/>'' @ [CHR 0xE2, CHR 0x9C, CHR 0x93] @ '' Bulk: up to 1000 userIds per request'') req_box_style,
      PageBreak] in
   Inr elements))\<close>

subsection \<open>Response formats (source lines 590 to 659)\<close>

definition status_data :: "obj list list" where
  \<open>status_data =
  [[Str ''Code'', Str ''Meaning'', Str ''Scenarios''],
   [Str ''200'', Str ''OK'', Str ''Successful GET/PATCH''],
   [Str ''201'', Str ''Created'', Str ''Successful POST creating resource''],
   [Str ''400'', Str ''Bad Request'', Str ''Validation errors''],
   [Str ''401'', Str ''Unauthorized'', Str ''Missing/invalid token''],
   [Str ''403'', Str ''Forbidden'', Str ''Insufficient permissions''],
   [Str ''404'', Str ''Not Found'', Str ''Resource not found''],
   [Str ''409'', Str ''Conflict'', Str ''Duplicate resource''],
   [Str ''500'', Str ''Server Error'', Str ''Internal server error'']]\<close>

definition status_table :: "obj" where
  \<open>status_table =
  Table status_data [0.8 * inch, 1.5 * inch, 3.2 * inch]
   [(''BACKGROUND'', (0, 0), (-1, 0), [ColorArg (HexColor ''#667eea'')]),
    (''TEXTCOLOR'', (0, 0), (-1, 0), [ColorArg (whitesmoke)]),
    (''ALIGN'', (0, 0), (-1, -1), [StrArg ''LEFT'']),
    (''FONTNAME'', (0, 0), (-1, 0), [StrArg ''Helvetica-Bold'']),
    (''FONTSIZE'', (0, 0), (-1, 0), [NumArg 10]),
    (''FONTSIZE'', (0, 1), (-1, -1), [NumArg 9]),
    (''BOTTOMPADDING'', (0, 0), (-1, 0), [NumArg 8]),
    (''TOPPADDING'', (0, 0), (-1, 0), [NumArg 8]),
    (''BACKGROUND'', (0, 1), (-1, -1), [ColorArg (HexColor ''#f9f9f9'')]),
    (''GRID'', (0, 0), (-1, -1), [NumArg 1, ColorArg (HexColor ''#ddd'')]),
    (''ROWBACKGROUNDS'', (0, 1), (-1, -1), [ColorsArg [white, HexColor ''#f9f9f9'']])]\<close>

definition pagination_data :: "obj list list" where
  \<open>pagination_data =
  [[Str ''Parameter/Header'', Str ''Type'', Str ''Description''],
   [Str ''skip'', Str ''Number'', Str ''Records to skip (default: 0)''],
   [Str ''limit'', Str ''Number'', Str ''Records per page (default: 10, max: 100)''],
   [Str ''X-RateLimit-Limit'', Str ''Number'', Str ''1000 requests per hour''],
   [Str ''X-RateLimit-Remaining'', Str ''Number'', Str ''Remaining requests in window''],
   [Str ''X-RateLimit-Reset'', Str ''Timestamp'', Str ''When limit resets'']]\<close>

definition pagination_table :: "obj" where
  \<open>pagination_table =
  Table pagination_data [2 * inch, 1.2 * inch, 2.8 * inch]
   [(''BACKGROUND'', (0, 0), (-1, 0), [ColorArg (HexColor ''#667eea'')]),
    (''TEXTCOLOR'', (0, 0), (-1, 0), [ColorArg (whitesmoke)]),
    (''ALIGN'', (0, 0), (-1, -1), [StrArg ''LEFT'']),
    (''FONTNAME'', (0, 0), (-1, 0), [StrArg ''Helvetica-Bold'']),
    (''FONTSIZE'', (0, 0), (-1, 0), [NumArg 10]),
    (''FONTSIZE'', (0, 1), (-1, -1), [NumArg 9]),
    (''BOTTOMPADDING'', (0, 0), (-1, 0), [NumArg 8]),
    (''TOPPADDING'', (0, 0), (-1, 0), [NumArg 8]),
    (''BACKGROUND'', (0, 1), (-1, -1), [ColorArg (HexColor ''#f9f9f9'')]),
    (''GRID'', (0, 0), (-1, -1), [NumArg 1, ColorArg (HexColor ''#ddd'')]),
    (''ROWBACKGROUNDS'', (0, 1), (-1, -1), [ColorsArg [white, HexColor ''#f9f9f9'']])]\<close>

definition response_formats :: "stylesheet \<Rightarrow> custom_styles \<Rightarrow> obj list \<Rightarrow> exn + obj list" where
  \<open>response_formats styles S elements =
  (let elements = elements @
     [Paragraph ([CHR 0xF0, CHR 0x9F, CHR 0x93, CHR 0x8A] @ '' Standard Response Formats'') (heading_style S),
      Paragraph ''Success Response (2xx)'' (subheading_style S),
      Paragraph ''{"status": 200, "message": "Operation completed successfully", "data": {...}}'' (code_style S),
      Spacer 1 (0.15 * inch),
      Paragraph ''Error Response (4xx/5xx)'' (subheading_style S),
      Paragraph ''{"status": 400, "message": "Error description", "error": {"code": "ERROR_CODE", "details": "..."}}'' (code_style S),
      Spacer 1 (0.15 * inch),
      Paragraph ''HTTP Status Codes'' (subheading_style S),
      status_table,
      Spacer 1 (0.2 * inch),
      Paragraph ''Pagination & Rate Limiting'' (subheading_style S),
      pagination_table,
      PageBreak] in
   Inr elements)\<close>

subsection \<open>Footer (source lines 661 to 688)\<close>

definition footer_section :: "stylesheet \<Rightarrow> custom_styles \<Rightarrow> obj list \<Rightarrow> exn + obj list" where
  \<open>footer_section styles S elements =
  (and_then (new_ParagraphStyle styles ''Footer'' ''Normal'' [fontSize 9, textColor (HexColor ''#666''), spaceAfter 10, alignment TA_CENTER]) (\<lambda>footer_style.
   let elements = elements @
     [Paragraph ([CHR 0x0A] @ ''    <b>PHRMA Production App - API Documentation v1.0</b><br/>'' @ [CHR 0x0A] @ ''    <b>Generated:</b> February 17, 2026<br/>'' @ [CHR 0x0A] @ ''    <b>API Version:</b> v2<br/>'' @ [CHR 0x0A] @ ''    <b>Total Endpoints:</b> 30+<br/>'' @ [CHR 0x0A] @ ''    <b>Support:</b> api-support@phrma.com<br/>'' @ [CHR 0x0A] @ ''    <br/>'' @ [CHR 0x0A] @ ''    <b>Key Features:</b><br/>'' @ [CHR 0x0A] @ ''    '' @ [CHR 0xE2, CHR 0x9C, CHR 0x93] @ '' Complete REST API with JWT Authentication<br/>'' @ [CHR 0x0A] @ ''    '' @ [CHR 0xE2, CHR 0x9C, CHR 0x93] @ '' Role-based Access Control (Admin, User, Manager)<br/>'' @ [CHR 0x0A] @ ''    '' @ [CHR 0xE2, CHR 0x9C, CHR 0x93] @ '' Comprehensive Input Validation<br/>'' @ [CHR 0x0A] @ ''    '' @ [CHR 0xE2, CHR 0x9C, CHR 0x93] @ '' Automatic Notifications for Orders & Payments<br/>'' @ [CHR 0x0A] @ ''    '' @ [CHR 0xE2, CHR 0x9C, CHR 0x93] @ '' File Upload Support with Image Processing<br/>'' @ [CHR 0x0A] @ ''    '' @ [CHR 0xE2, CHR 0x9C, CHR 0x93] @ '' Error Handling with Descriptive Messages<br/>'' @ [CHR 0x0A] @ ''    '' @ [CHR 0xE2, CHR 0x9C, CHR 0x93] @ '' Pagination & Rate Limiting<br/>'' @ [CHR 0x0A] @ ''    '' @ [CHR 0xE2, CHR 0x9C, CHR 0x93] @ '' Gateway Mode Support for Microservices'' @ [CHR 0x0A] @ ''    '') footer_style] in
   Inr elements))\<close>


subsection \<open>The whole block list (source lines 31 to 688)\<close>

definition build_elements :: "stylesheet \<Rightarrow> exn + obj list" where
  "build_elements styles =
   and_then (define_styles styles) (\<lambda>S.
   and_then (title_page styles S []) (\<lambda>elements.
   and_then (table_of_contents styles S elements) (\<lambda>elements.
   and_then (authentication_section styles S elements) (\<lambda>elements.
   and_then (user_endpoints styles S elements) (\<lambda>elements.
   and_then (medicine_store styles S elements) (\<lambda>elements.
   and_then (admin_store styles S elements) (\<lambda>elements.
   and_then (items_section styles S elements) (\<lambda>elements.
   and_then (location_section styles S elements) (\<lambda>elements.
   and_then (units_section styles S elements) (\<lambda>elements.
   and_then (gst_section styles S elements) (\<lambda>elements.
   and_then (orders_section styles S elements) (\<lambda>elements.
   and_then (payments_section styles S elements) (\<lambda>elements.
   and_then (notifications_section styles S elements) (\<lambda>elements.
   and_then (response_formats styles S elements) (\<lambda>elements.
   footer_section styles S elements)))))))))))))))"

text \<open>The list that the program hands to \<open>doc.build\<close>.\<close>

definition elements :: "obj list" where
  "elements = (case build_elements getSampleStyleSheet of Inl e \<Rightarrow> [] | Inr es \<Rightarrow> es)"

subsection \<open>Rendering (source lines 690 to 702)\<close>

text \<open>
  What a run can read and change. The function takes no argument; \<open>env\<close> holds what a
  Python process can consult: the command line, the environment variables, the clock, and
  the texts that the encoding of standard output can encode (Python fixes that encoding at
  start-up from the locale and from variables such as \<open>PYTHONIOENCODING\<close>; the rules by
  which it does so are not modelled, only their outcome). \<open>world\<close> holds the files, the
  paths that cannot be opened for writing, the number of bytes that can still be written,
  and the lines printed.
\<close>

record env =
  argv :: "string list"
  environ :: "(string \<times> string) list"
  now :: nat
  stdout_encodes :: "string \<Rightarrow> bool"

record world =
  files :: "string \<rightharpoonup> string"
  unwritable :: "string set"
  space :: nat
  stdout :: "string list"

text \<open>
  \<open>print(s)\<close>: the line is added to standard output, or \<open>UnicodeEncodeError\<close> is raised
  and nothing is added when the encoding of standard output cannot encode the text.
\<close>

definition print :: "env \<Rightarrow> string \<Rightarrow> world \<Rightarrow> exn + world" where
  "print ev s w =
     (if stdout_encodes ev s then Inr (w\<lparr>stdout := stdout w @ [s]\<rparr>)
      else Inl (UnicodeEncodeError s))"

text \<open>A run of \<open>print\<close> calls; the first exception ends it.\<close>

fun print_all :: "env \<Rightarrow> string list \<Rightarrow> world \<Rightarrow> (exn + unit) \<times> world" where
  "print_all ev [] w = (Inr (), w)"
| "print_all ev (s # ss) w =
     (case print ev s w of Inl e \<Rightarrow> (Inl e, w) | Inr w' \<Rightarrow> print_all ev ss w')"

text \<open>
  The layout engine is outside the program and is a parameter here: \<open>layout\<close> assigns the
  blocks to pages or raises, \<open>serialise\<close> turns the pages into the bytes of the artifact
  and may embed the time of the run.
\<close>

record engine =
  layout :: "SimpleDocTemplate \<Rightarrow> obj list \<Rightarrow> exn + obj list list"
  serialise :: "nat \<Rightarrow> SimpleDocTemplate \<Rightarrow> obj list list \<Rightarrow> string"

text \<open>
  \<open>doc.build(flowables)\<close>. The library is not part of the program; this is the behaviour
  of its call. The engine lays the blocks out; then the artifact is saved by opening the
  template's file name with Python's \<open>open(name, 'wb')\<close> and writing the bytes to it.
  Opening raises \<open>OSError\<close> and changes nothing when the path cannot be opened; otherwise
  it empties the file. Writing raises \<open>OSError\<close> when the bytes do not fit in the space
  left, and the file then holds only the part that was written.
\<close>

definition build :: "engine \<Rightarrow> env \<Rightarrow> SimpleDocTemplate \<Rightarrow> obj list \<Rightarrow> world \<Rightarrow> (exn + unit) \<times> world" where
  "build E ev d flowables w =
     (case layout E d flowables of
        Inl e \<Rightarrow> (Inl e, w)
      | Inr pages \<Rightarrow>
          if filename d \<in> unwritable w then (Inl (OSError (filename d)), w)
          else if length (serialise E (now ev) d pages) \<le> space w
          then (Inr (), w\<lparr>files := (files w)(filename d \<mapsto> serialise E (now ev) d pages)\<rparr>)
          else (Inl (OSError (filename d)),
                w\<lparr>files := (files w)(filename d \<mapsto> take (space w) (serialise E (now ev) d pages))\<rparr>))"

text \<open>The line printed before the build (source line 691).\<close>

definition announcement :: string where
  \<open>announcement = [CHR 0xF0, CHR 0x9F, CHR 0x9A, CHR 0x80] @ '' Generating PDF...''\<close>

text \<open>The lines printed after a successful build (source lines 694 to 702).\<close>

definition report :: "string list" where
  \<open>report =
    [([CHR 0xE2, CHR 0x9C, CHR 0x85] @ '' PDF generated successfully: '') @ pdf_filename,
     [CHR 0xF0, CHR 0x9F, CHR 0x93, CHR 0x8A] @ '' The PDF contains:'',
     ''   '' @ [CHR 0xE2, CHR 0x80, CHR 0xA2] @ '' Complete API documentation'',
     ''   '' @ [CHR 0xE2, CHR 0x80, CHR 0xA2] @ '' 30+ endpoints with examples'',
     ''   '' @ [CHR 0xE2, CHR 0x80, CHR 0xA2] @ '' Request/Response formats'',
     ''   '' @ [CHR 0xE2, CHR 0x80, CHR 0xA2] @ '' Authentication methods'',
     ''   '' @ [CHR 0xE2, CHR 0x80, CHR 0xA2] @ '' Validation requirements'',
     ''   '' @ [CHR 0xE2, CHR 0x80, CHR 0xA2] @ '' HTTP status codes'',
     ''   '' @ [CHR 0xE2, CHR 0x80, CHR 0xA2] @ '' Professional formatting'']\<close>

text \<open>
  Source lines 690 to 702 for a template and a block list: the announcement, the call of
  \<open>doc.build\<close>, and the report. No exception is caught: one raised by the announcement
  ends the run before \<open>doc.build\<close>, one raised by \<open>doc.build\<close> ends it before the report,
  and one raised by a line of the report ends it after the artifact was written.
\<close>

definition build_pdf :: "engine \<Rightarrow> env \<Rightarrow> SimpleDocTemplate \<Rightarrow> obj list \<Rightarrow> world \<Rightarrow> (exn + unit) \<times> world" where
  "build_pdf E ev d flowables w =
     (case print ev announcement w of
        Inl e \<Rightarrow> (Inl e, w)
      | Inr w1 \<Rightarrow>
          (case build E ev d flowables w1 of
             (Inl e, w2) \<Rightarrow> (Inl e, w2)
           | (Inr u, w2) \<Rightarrow> print_all ev report w2))"

subsection \<open>The entry point\<close>

definition create_api_pdf :: "engine \<Rightarrow> env \<Rightarrow> world \<Rightarrow> (exn + unit) \<times> world" where
  "create_api_pdf E ev w =
     (case build_elements getSampleStyleSheet of
        Inl e \<Rightarrow> (Inl e, w)
      | Inr flowables \<Rightarrow> build_pdf E ev doc flowables w)"

section \<open>Views of the block list\<close>

text \<open>The four kinds of block of the document; a bare string is not one.\<close>

fun is_block :: "obj \<Rightarrow> bool" where
  "is_block (Str s) = False"
| "is_block (Paragraph t st) = True"
| "is_block (Spacer w h) = True"
| "is_block PageBreak = True"
| "is_block (Table d ws cmds) = True"

text \<open>The sum of the explicit column widths of a table (0 for any other block).\<close>

fun table_width :: "obj \<Rightarrow> rat" where
  "table_width (Table d ws cmds) = sum_list ws"
| "table_width b = 0"

fun style_name :: "ParagraphStyle \<Rightarrow> string" where
  "style_name (SampleStyle n) = n"
| "style_name (ParagraphStyle n p as) = n"

text \<open>The texts of the paragraphs of a block list that are set in the style of a given name.\<close>

fun styled_texts :: "string \<Rightarrow> obj list \<Rightarrow> string list" where
  "styled_texts n [] = []"
| "styled_texts n (Paragraph t st # bs) =
     (if style_name st = n then t # styled_texts n bs else styled_texts n bs)"
| "styled_texts n (b # bs) = styled_texts n bs"

text \<open>
  A block list cut at its page breaks: \<open>split_at_breaks cur bs\<close> returns the runs of
  blocks between the page breaks of \<open>bs\<close>, where \<open>cur\<close> is the run in progress.
\<close>

fun split_at_breaks :: "obj list \<Rightarrow> obj list \<Rightarrow> obj list list" where
  "split_at_breaks cur [] = [cur]"
| "split_at_breaks cur (b # bs) =
     (if b = PageBreak then cur # split_at_breaks [] bs else split_at_breaks (cur @ [b]) bs)"

definition pages :: "obj list list" where
  "pages = split_at_breaks [] elements"

text \<open>A block list that holds exactly one page break, as its last block.\<close>

definition ends_with_break :: "obj list \<Rightarrow> bool" where
  "ends_with_break bs = (bs \<noteq> [] \<and> last bs = PageBreak \<and> PageBreak \<notin> set (butlast bs))"

text \<open>
  The outline of a block: its kind, the text of a paragraph set in the heading style, the
  style name of any other paragraph, and the summed column widths of a table.
\<close>

datatype outline = OStr | OHeading string | OPara string | OSpacer | OBreak | OTable rat

fun outline_of :: "obj \<Rightarrow> outline" where
  "outline_of (Str s) = OStr"
| "outline_of (Paragraph t st) =
     (if style_name st = ''CustomHeading'' then OHeading t else OPara (style_name st))"
| "outline_of (Spacer w h) = OSpacer"
| "outline_of PageBreak = OBreak"
| "outline_of (Table d ws cmds) = OTable (sum_list ws)"

fun outline_width :: "outline \<Rightarrow> rat" where
  "outline_width (OTable w) = w"
| "outline_width ol = 0"

fun headings :: "outline list \<Rightarrow> string list" where
  "headings [] = []"
| "headings (OHeading t # os) = t # headings os"
| "headings (ol # os) = headings os"

text \<open>
  The custom styles of a run, and the blocks that a section appends in a run (the section
  applied to the empty list). The fallbacks are never reached, since the lookups in the
  sample style sheet succeed (lemmas \<open>define_styles_sample\<close> and \<open>*_sample\<close> below).
\<close>

definition the_styles :: custom_styles where
  "the_styles = (case define_styles getSampleStyleSheet of
      Inr S \<Rightarrow> S
    | Inl e \<Rightarrow> \<lparr>title_style = SampleStyle [], heading_style = SampleStyle [],
               subheading_style = SampleStyle [], body_style = SampleStyle [],
               code_style = SampleStyle []\<rparr>)"

definition section_blocks :: "(stylesheet \<Rightarrow> custom_styles \<Rightarrow> obj list \<Rightarrow> exn + obj list) \<Rightarrow> obj list" where
  "section_blocks sec = (case sec getSampleStyleSheet the_styles [] of Inr bs \<Rightarrow> bs | Inl e \<Rightarrow> [])"

text \<open>The sections between the table of contents and the footer, one per API area.\<close>

definition api_sections :: "(stylesheet \<Rightarrow> custom_styles \<Rightarrow> obj list \<Rightarrow> exn + obj list) list" where
  "api_sections =
     [authentication_section, user_endpoints, medicine_store, admin_store, items_section,
      location_section, units_section, gst_section, orders_section, payments_section,
      notifications_section, response_formats]"

text \<open>The keys that the program looks up in the style sheet, in the order of first use.\<close>

definition parent_names :: "string list" where
  "parent_names = [''Heading1'', ''Heading2'', ''Heading3'', ''BodyText'', ''Normal'']"

text \<open>
  Reading a table-of-contents entry \<open>N. Topic\<close>: its number, its topic, and whether a
  section title names the topic (the words of the topic occur in the title, in order).
\<close>

definition entry_number :: "string \<Rightarrow> nat" where
  "entry_number item =
     foldl (\<lambda>n c. 10 * n + (of_char c - 48)) 0 (takeWhile (\<lambda>c. c \<noteq> CHR ''.'') item)"

definition topic :: "string \<Rightarrow> string" where
  "topic item = drop 1 (dropWhile (\<lambda>c. c \<noteq> CHR '' '') item)"

fun split_words :: "string \<Rightarrow> string \<Rightarrow> string list" where
  "split_words cur [] = [cur]"
| "split_words cur (c # cs) =
     (if c = CHR '' '' then cur # split_words [] cs else split_words (cur @ [c]) cs)"

fun in_order :: "'a list \<Rightarrow> 'a list \<Rightarrow> bool" where
  "in_order [] ys = True"
| "in_order (x # xs) [] = False"
| "in_order (x # xs) (y # ys) = (if x = y then in_order xs ys else in_order (x # xs) ys)"

definition names_topic :: "string \<Rightarrow> string \<Rightarrow> bool" where
  "names_topic item heading = in_order (split_words [] (topic item)) (split_words [] heading)"

text \<open>The titles of the body: the heading-styled paragraphs of the API sections.\<close>

definition section_titles :: "string list" where
  "section_titles = styled_texts ''CustomHeading'' (concat (map section_blocks api_sections))"

text \<open>Whether a text contains another as a contiguous part.\<close>

fun contains :: "string \<Rightarrow> string \<Rightarrow> bool" where
  "contains [] p = (p = [])"
| "contains (c # cs) p = (take (length p) (c # cs) = p \<or> contains cs p)"

text \<open>
  An engine, a run and a world for the instances given with the theorems below: an engine
  that puts all blocks on one page and writes a fixed text of three bytes, a run at time 0
  with no arguments whose standard output encodes every text, and a world with no file and
  room for a thousand bytes.
\<close>

definition one_page_engine :: engine where
  "one_page_engine = \<lparr>layout = (\<lambda>d bs. Inr [bs]), serialise = (\<lambda>t d ps. ''new'')\<rparr>"

definition plain_run :: env where
  "plain_run = \<lparr>argv = [], environ = [], now = 0, stdout_encodes = (\<lambda>s. True)\<rparr>"

definition empty_world :: world where
  "empty_world = \<lparr>files = Map.empty, unwritable = {}, space = 1000, stdout = []\<rparr>"

section \<open>Properties\<close>

subsection \<open>Auxiliary facts\<close>

lemmas data_defs = metadata_data_def metadata_table_def toc_items_def auth_data_def auth_table_def headers_data_def headers_table_def roles_data_def roles_table_def store_req_data_def store_req_table_def admin_endpoints_def items_endpoints_def loc_endpoints_def parent_units_def child_units_def gst_endpoints_def notif_endpoints_def status_data_def status_table_def pagination_data_def pagination_table_def

lemma fold_appends: "fold (\<lambda>x es. es @ f x) xs es0 = es0 @ concat (map f xs)"
  by (induction xs arbitrary: es0) simp_all

lemma fold_appends2:
  "fold (\<lambda>(a, b) es. es @ f a b) xs es0 = es0 @ concat (map (\<lambda>(a, b). f a b) xs)"
  by (induction xs arbitrary: es0) auto

lemma getitem_sample_Normal: "getitem getSampleStyleSheet ''Normal'' = Inr (SampleStyle ''Normal'')"
  by (simp add: getitem_def getSampleStyleSheet_def)

lemma define_styles_sample: "define_styles getSampleStyleSheet = Inr the_styles"
  by (simp add: the_styles_def define_styles_def new_ParagraphStyle_def getitem_def
      getSampleStyleSheet_def and_then_def)

lemma style_names:
  "style_name (title_style the_styles) = ''CustomTitle''"
  "style_name (heading_style the_styles) = ''CustomHeading''"
  "style_name (subheading_style the_styles) = ''CustomSubHeading''"
  "style_name (body_style the_styles) = ''CustomBody''"
  "style_name (code_style the_styles) = ''CodeStyle''"
  by (simp_all add: the_styles_def define_styles_def new_ParagraphStyle_def getitem_def
      getSampleStyleSheet_def and_then_def)

lemma section_blocksI:
  "\<forall>es. sec getSampleStyleSheet the_styles es = Inr (es @ bs) \<Longrightarrow>
   sec getSampleStyleSheet the_styles es = Inr (es @ section_blocks sec)"
  by (simp add: section_blocks_def)

subsection \<open>Every section appends to the list it is given\<close>

text \<open>
  With the key \<open>Normal\<close> in the style sheet a section cannot fail, and what it appends
  does not depend on the list so far.
\<close>

lemma title_page_appends:
  "getitem styles ''Normal'' = Inr n \<Longrightarrow> \<exists>bs. \<forall>es. title_page styles S es = Inr (es @ bs)"
  by (simp add: title_page_def new_ParagraphStyle_def and_then_def Let_def fold_appends fold_appends2)

lemma table_of_contents_appends:
  "\<exists>bs. \<forall>es. table_of_contents styles S es = Inr (es @ bs)"
  by (simp add: table_of_contents_def new_ParagraphStyle_def and_then_def Let_def fold_appends fold_appends2)

lemma authentication_section_appends:
  "\<exists>bs. \<forall>es. authentication_section styles S es = Inr (es @ bs)"
  by (simp add: authentication_section_def new_ParagraphStyle_def and_then_def Let_def fold_appends fold_appends2)

lemma user_endpoints_appends:
  "getitem styles ''Normal'' = Inr n \<Longrightarrow> \<exists>bs. \<forall>es. user_endpoints styles S es = Inr (es @ bs)"
  by (simp add: user_endpoints_def new_ParagraphStyle_def and_then_def Let_def fold_appends fold_appends2)

lemma medicine_store_appends:
  "getitem styles ''Normal'' = Inr n \<Longrightarrow> \<exists>bs. \<forall>es. medicine_store styles S es = Inr (es @ bs)"
  by (simp add: medicine_store_def new_ParagraphStyle_def and_then_def Let_def fold_appends fold_appends2)

lemma admin_store_appends:
  "getitem styles ''Normal'' = Inr n \<Longrightarrow> \<exists>bs. \<forall>es. admin_store styles S es = Inr (es @ bs)"
  by (simp add: admin_store_def new_ParagraphStyle_def and_then_def Let_def fold_appends fold_appends2)

lemma items_section_appends:
  "getitem styles ''Normal'' = Inr n \<Longrightarrow> \<exists>bs. \<forall>es. items_section styles S es = Inr (es @ bs)"
  by (simp add: items_section_def new_ParagraphStyle_def and_then_def Let_def fold_appends fold_appends2)

lemma location_section_appends:
  "getitem styles ''Normal'' = Inr n \<Longrightarrow> \<exists>bs. \<forall>es. location_section styles S es = Inr (es @ bs)"
  by (simp add: location_section_def new_ParagraphStyle_def and_then_def Let_def fold_appends fold_appends2)

lemma units_section_appends:
  "\<exists>bs. \<forall>es. units_section styles S es = Inr (es @ bs)"
  by (simp add: units_section_def new_ParagraphStyle_def and_then_def Let_def fold_appends fold_appends2)

lemma gst_section_appends:
  "\<exists>bs. \<forall>es. gst_section styles S es = Inr (es @ bs)"
  by (simp add: gst_section_def new_ParagraphStyle_def and_then_def Let_def fold_appends fold_appends2)

lemma orders_section_appends:
  "\<exists>bs. \<forall>es. orders_section styles S es = Inr (es @ bs)"
  by (simp add: orders_section_def new_ParagraphStyle_def and_then_def Let_def fold_appends fold_appends2)

lemma payments_section_appends:
  "\<exists>bs. \<forall>es. payments_section styles S es = Inr (es @ bs)"
  by (simp add: payments_section_def new_ParagraphStyle_def and_then_def Let_def fold_appends fold_appends2)

lemma notifications_section_appends:
  "getitem styles ''Normal'' = Inr n \<Longrightarrow> \<exists>bs. \<forall>es. notifications_section styles S es = Inr (es @ bs)"
  by (simp add: notifications_section_def new_ParagraphStyle_def and_then_def Let_def fold_appends fold_appends2)

lemma response_formats_appends:
  "\<exists>bs. \<forall>es. response_formats styles S es = Inr (es @ bs)"
  by (simp add: response_formats_def new_ParagraphStyle_def and_then_def Let_def fold_appends fold_appends2)

lemma footer_section_appends:
  "getitem styles ''Normal'' = Inr n \<Longrightarrow> \<exists>bs. \<forall>es. footer_section styles S es = Inr (es @ bs)"
  by (simp add: footer_section_def new_ParagraphStyle_def and_then_def Let_def fold_appends fold_appends2)

subsection \<open>The sections on the sample style sheet\<close>

lemma title_page_sample:
  "title_page getSampleStyleSheet the_styles es = Inr (es @ section_blocks title_page)"
  using title_page_appends [OF getitem_sample_Normal] by (blast intro: section_blocksI)

lemma table_of_contents_sample:
  "table_of_contents getSampleStyleSheet the_styles es = Inr (es @ section_blocks table_of_contents)"
  using table_of_contents_appends by (blast intro: section_blocksI)

lemma authentication_section_sample:
  "authentication_section getSampleStyleSheet the_styles es = Inr (es @ section_blocks authentication_section)"
  using authentication_section_appends by (blast intro: section_blocksI)

lemma user_endpoints_sample:
  "user_endpoints getSampleStyleSheet the_styles es = Inr (es @ section_blocks user_endpoints)"
  using user_endpoints_appends [OF getitem_sample_Normal] by (blast intro: section_blocksI)

lemma medicine_store_sample:
  "medicine_store getSampleStyleSheet the_styles es = Inr (es @ section_blocks medicine_store)"
  using medicine_store_appends [OF getitem_sample_Normal] by (blast intro: section_blocksI)

lemma admin_store_sample:
  "admin_store getSampleStyleSheet the_styles es = Inr (es @ section_blocks admin_store)"
  using admin_store_appends [OF getitem_sample_Normal] by (blast intro: section_blocksI)

lemma items_section_sample:
  "items_section getSampleStyleSheet the_styles es = Inr (es @ section_blocks items_section)"
  using items_section_appends [OF getitem_sample_Normal] by (blast intro: section_blocksI)

lemma location_section_sample:
  "location_section getSampleStyleSheet the_styles es = Inr (es @ section_blocks location_section)"
  using location_section_appends [OF getitem_sample_Normal] by (blast intro: section_blocksI)

lemma units_section_sample:
  "units_section getSampleStyleSheet the_styles es = Inr (es @ section_blocks units_section)"
  using units_section_appends by (blast intro: section_blocksI)

lemma gst_section_sample:
  "gst_section getSampleStyleSheet the_styles es = Inr (es @ section_blocks gst_section)"
  using gst_section_appends by (blast intro: section_blocksI)

lemma orders_section_sample:
  "orders_section getSampleStyleSheet the_styles es = Inr (es @ section_blocks orders_section)"
  using orders_section_appends by (blast intro: section_blocksI)

lemma payments_section_sample:
  "payments_section getSampleStyleSheet the_styles es = Inr (es @ section_blocks payments_section)"
  using payments_section_appends by (blast intro: section_blocksI)

lemma notifications_section_sample:
  "notifications_section getSampleStyleSheet the_styles es = Inr (es @ section_blocks notifications_section)"
  using notifications_section_appends [OF getitem_sample_Normal] by (blast intro: section_blocksI)

lemma response_formats_sample:
  "response_formats getSampleStyleSheet the_styles es = Inr (es @ section_blocks response_formats)"
  using response_formats_appends by (blast intro: section_blocksI)

lemma footer_section_sample:
  "footer_section getSampleStyleSheet the_styles es = Inr (es @ section_blocks footer_section)"
  using footer_section_appends [OF getitem_sample_Normal] by (blast intro: section_blocksI)

subsection \<open>The block list as the blocks of its sections\<close>

lemmas sample_sections = title_page_sample table_of_contents_sample authentication_section_sample
  user_endpoints_sample medicine_store_sample admin_store_sample items_section_sample
  location_section_sample units_section_sample gst_section_sample orders_section_sample
  payments_section_sample notifications_section_sample response_formats_sample
  footer_section_sample

lemma build_elements_sample: "build_elements getSampleStyleSheet = Inr elements"
  by (simp add: elements_def build_elements_def define_styles_sample sample_sections and_then_def)

lemma elements_sections:
  "elements = concat (map section_blocks ([title_page, table_of_contents] @ api_sections))
     @ section_blocks footer_section"
  by (simp add: elements_def build_elements_def define_styles_sample sample_sections and_then_def
      api_sections_def)

subsection \<open>The outline of each section\<close>

lemma title_page_outline:
  \<open>map outline_of (section_blocks title_page) =
    [OSpacer, OTable 504, OSpacer, OTable 288, OBreak]\<close>
  by (simp add: section_blocks_def title_page_def new_ParagraphStyle_def and_then_def Let_def
      getitem_sample_Normal style_names fold_appends fold_appends2 data_defs inch_def)

lemma table_of_contents_outline:
  \<open>map outline_of (section_blocks table_of_contents) =
    [OHeading ([CHR 0xF0, CHR 0x9F, CHR 0x93, CHR 0x91] @ '' Table of Contents''),
     OPara ''CustomBody'', OSpacer, OPara ''CustomBody'', OSpacer, OPara ''CustomBody'',
     OSpacer, OPara ''CustomBody'', OSpacer, OPara ''CustomBody'', OSpacer,
     OPara ''CustomBody'', OSpacer, OPara ''CustomBody'', OSpacer, OPara ''CustomBody'',
     OSpacer, OPara ''CustomBody'', OSpacer, OPara ''CustomBody'', OSpacer,
     OPara ''CustomBody'', OSpacer, OPara ''CustomBody'', OSpacer, OBreak]\<close>
  by (simp add: section_blocks_def table_of_contents_def new_ParagraphStyle_def and_then_def Let_def
      getitem_sample_Normal style_names fold_appends fold_appends2 data_defs inch_def)

lemma authentication_section_outline:
  \<open>map outline_of (section_blocks authentication_section) =
    [OHeading ([CHR 0xF0, CHR 0x9F, CHR 0x94, CHR 0x90] @ '' Authentication & Authorization''),
     OPara ''CustomSubHeading'', OTable 468, OSpacer, OPara ''CustomSubHeading'', OTable 468,
     OSpacer, OPara ''CustomSubHeading'', OTable 468, OBreak]\<close>
  by (simp add: section_blocks_def authentication_section_def new_ParagraphStyle_def and_then_def Let_def
      getitem_sample_Normal style_names fold_appends fold_appends2 data_defs inch_def)

lemma user_endpoints_outline:
  \<open>map outline_of (section_blocks user_endpoints) =
    [OHeading ([CHR 0xF0, CHR 0x9F, CHR 0x91, CHR 0xA4] @ '' User Management Endpoints''),
     OPara ''CustomSubHeading'', OPara ''CustomBody'', OPara ''CodeStyle'', OSpacer,
     OPara ''CustomSubHeading'', OPara ''CodeStyle'', OSpacer, OPara ''CustomBody'',
     OPara ''CodeStyle'', OSpacer, OPara ''ReqBox'', OSpacer, OPara ''CustomSubHeading'',
     OPara ''CustomBody'', OPara ''Auth'', OSpacer, OPara ''CustomSubHeading'',
     OPara ''CustomBody'', OPara ''CodeStyle'', OSpacer, OPara ''CustomSubHeading'',
     OPara ''CustomBody'', OPara ''CodeStyle'', OSpacer, OPara ''CustomSubHeading'',
     OPara ''CustomBody'', OPara ''Auth'', OBreak]\<close>
  by (simp add: section_blocks_def user_endpoints_def new_ParagraphStyle_def and_then_def Let_def
      getitem_sample_Normal style_names fold_appends fold_appends2 data_defs inch_def)

lemma medicine_store_outline:
  \<open>map outline_of (section_blocks medicine_store) =
    [OHeading ([CHR 0xF0, CHR 0x9F, CHR 0x92, CHR 0x8A] @ '' Medicine Store Endpoints''),
     OPara ''CustomSubHeading'', OPara ''CustomBody'', OSpacer, OTable 381.6, OSpacer,
     OPara ''CustomSubHeading'', OPara ''CodeStyle'', OSpacer, OPara ''ReqBox'', OBreak]\<close>
  by (simp add: section_blocks_def medicine_store_def new_ParagraphStyle_def and_then_def Let_def
      getitem_sample_Normal style_names fold_appends fold_appends2 data_defs inch_def)

lemma admin_store_outline:
  \<open>map outline_of (section_blocks admin_store) =
    [
     OHeading ([CHR 0xE2, CHR 0x9A, CHR 0x99, CHR 0xEF, CHR 0xB8, CHR 0x8F] @ '' Admin Store Management''),
     OPara ''CustomSubHeading'', OPara ''CustomBody'', OSpacer, OPara ''CustomSubHeading'',
     OPara ''CustomBody'', OSpacer, OPara ''CustomSubHeading'', OPara ''CustomBody'', OSpacer,
     OPara ''CustomSubHeading'', OPara ''CustomBody'', OSpacer, OPara ''CustomSubHeading'',
     OPara ''CodeStyle'', OSpacer, OPara ''ReqBox'', OBreak]\<close>
  by (simp add: section_blocks_def admin_store_def new_ParagraphStyle_def and_then_def Let_def
      getitem_sample_Normal style_names fold_appends fold_appends2 data_defs inch_def)

lemma items_section_outline:
  \<open>map outline_of (section_blocks items_section) =
    [OHeading ([CHR 0xF0, CHR 0x9F, CHR 0x93, CHR 0xA6] @ '' Items Management''),
     OPara ''CustomSubHeading'', OPara ''CustomBody'', OSpacer, OPara ''CustomSubHeading'',
     OPara ''CustomBody'', OSpacer, OPara ''CustomSubHeading'', OPara ''CustomBody'', OSpacer,
     OPara ''CustomSubHeading'', OPara ''CustomBody'', OSpacer, OPara ''CustomSubHeading'',
     OPara ''CustomBody'', OSpacer, OSpacer, OPara ''ReqBox'', OBreak]\<close>
  by (simp add: section_blocks_def items_section_def new_ParagraphStyle_def and_then_def Let_def
      getitem_sample_Normal style_names fold_appends fold_appends2 data_defs inch_def)

lemma location_section_outline:
  \<open>map outline_of (section_blocks location_section) =
    [
     OHeading ([CHR 0xF0, CHR 0x9F, CHR 0x97, CHR 0xBA, CHR 0xEF, CHR 0xB8, CHR 0x8F] @ '' Location Services''),
     OPara ''CustomSubHeading'', OPara ''CustomBody'', OSpacer, OPara ''CustomSubHeading'',
     OPara ''CustomBody'', OSpacer, OPara ''CustomSubHeading'', OPara ''CustomBody'', OSpacer,
     OPara ''CodeStyle'', OSpacer, OPara ''Note'', OBreak]\<close>
  by (simp add: section_blocks_def location_section_def new_ParagraphStyle_def and_then_def Let_def
      getitem_sample_Normal style_names fold_appends fold_appends2 data_defs inch_def)

lemma units_section_outline:
  \<open>map outline_of (section_blocks units_section) =
    [OHeading ([CHR 0xF0, CHR 0x9F, CHR 0x93, CHR 0x8F] @ '' Unit Management''),
     OPara ''CustomSubHeading'', OPara ''CustomBody'', OPara ''CustomBody'', OSpacer,
     OPara ''CustomBody'', OPara ''CustomBody'', OSpacer, OPara ''CustomBody'',
     OPara ''CustomBody'', OSpacer, OPara ''CustomBody'', OPara ''CustomBody'', OSpacer,
     OSpacer, OPara ''CustomSubHeading'', OPara ''CustomBody'', OPara ''CustomBody'', OSpacer,
     OPara ''CustomBody'', OPara ''CustomBody'', OSpacer, OPara ''CustomBody'',
     OPara ''CustomBody'', OSpacer, OPara ''CustomBody'', OPara ''CustomBody'', OSpacer,
     OSpacer, OPara ''CodeStyle'', OBreak]\<close>
  by (simp add: section_blocks_def units_section_def new_ParagraphStyle_def and_then_def Let_def
      getitem_sample_Normal style_names fold_appends fold_appends2 data_defs inch_def)

lemma gst_section_outline:
  \<open>map outline_of (section_blocks gst_section) =
    [OHeading ([CHR 0xF0, CHR 0x9F, CHR 0x92, CHR 0xB0] @ '' GST Rate Management''),
     OPara ''CustomSubHeading'', OPara ''CustomBody'', OSpacer, OPara ''CustomSubHeading'',
     OPara ''CustomBody'', OSpacer, OPara ''CustomSubHeading'', OPara ''CustomBody'', OSpacer,
     OPara ''CustomSubHeading'', OPara ''CustomBody'', OSpacer, OPara ''CodeStyle'', OBreak]\<close>
  by (simp add: section_blocks_def gst_section_def new_ParagraphStyle_def and_then_def Let_def
      getitem_sample_Normal style_names fold_appends fold_appends2 data_defs inch_def)

lemma orders_section_outline:
  \<open>map outline_of (section_blocks orders_section) =
    [OHeading ([CHR 0xF0, CHR 0x9F, CHR 0x93, CHR 0x8B] @ '' Orders''),
     OPara ''CustomSubHeading'', OPara ''CustomBody'', OPara ''CodeStyle'', OSpacer,
     OPara ''CodeStyle'', OSpacer, OPara ''CustomSubHeading'', OPara ''CustomBody'',
     OPara ''CodeStyle'', OBreak]\<close>
  by (simp add: section_blocks_def orders_section_def new_ParagraphStyle_def and_then_def Let_def
      getitem_sample_Normal style_names fold_appends fold_appends2 data_defs inch_def)

lemma payments_section_outline:
  \<open>map outline_of (section_blocks payments_section) =
    [OHeading ([CHR 0xF0, CHR 0x9F, CHR 0x92, CHR 0xB3] @ '' Payments''),
     OPara ''CustomSubHeading'', OPara ''CustomBody'', OPara ''CodeStyle'', OSpacer,
     OPara ''CustomSubHeading'', OPara ''CustomBody'', OPara ''CodeStyle'', OSpacer,
     OPara ''CustomSubHeading'', OPara ''CustomBody'', OBreak]\<close>
  by (simp add: section_blocks_def payments_section_def new_ParagraphStyle_def and_then_def Let_def
      getitem_sample_Normal style_names fold_appends fold_appends2 data_defs inch_def)

lemma notifications_section_outline:
  \<open>map outline_of (section_blocks notifications_section) =
    [OHeading ([CHR 0xF0, CHR 0x9F, CHR 0x94, CHR 0x94] @ '' Notifications''),
     OPara ''CustomSubHeading'', OPara ''CustomBody'', OSpacer, OPara ''CustomSubHeading'',
     OPara ''CustomBody'', OSpacer, OPara ''CustomSubHeading'', OPara ''CustomBody'', OSpacer,
     OPara ''CustomSubHeading'', OPara ''CustomBody'', OSpacer, OPara ''CodeStyle'', OSpacer,
     OPara ''ReqBox'', OBreak]\<close>
  by (simp add: section_blocks_def notifications_section_def new_ParagraphStyle_def and_then_def Let_def
      getitem_sample_Normal style_names fold_appends fold_appends2 data_defs inch_def)

lemma response_formats_outline:
  \<open>map outline_of (section_blocks response_formats) =
    [OHeading ([CHR 0xF0, CHR 0x9F, CHR 0x93, CHR 0x8A] @ '' Standard Response Formats''),
     OPara ''CustomSubHeading'', OPara ''CodeStyle'', OSpacer, OPara ''CustomSubHeading'',
     OPara ''CodeStyle'', OSpacer, OPara ''CustomSubHeading'', OTable 396, OSpacer,
     OPara ''CustomSubHeading'', OTable 432, OBreak]\<close>
  by (simp add: section_blocks_def response_formats_def new_ParagraphStyle_def and_then_def Let_def
      getitem_sample_Normal style_names fold_appends fold_appends2 data_defs inch_def)

lemma footer_section_outline:
  \<open>map outline_of (section_blocks footer_section) =
    [OPara ''Footer'']\<close>
  by (simp add: section_blocks_def footer_section_def new_ParagraphStyle_def and_then_def Let_def
      getitem_sample_Normal style_names fold_appends fold_appends2 data_defs inch_def)

lemmas section_outlines = title_page_outline table_of_contents_outline
  authentication_section_outline user_endpoints_outline medicine_store_outline
  admin_store_outline items_section_outline location_section_outline units_section_outline
  gst_section_outline orders_section_outline payments_section_outline
  notifications_section_outline response_formats_outline footer_section_outline

subsection \<open>Views through the outline\<close>

lemma blocks_outline: "list_all is_block bs = list_all (\<lambda>ol. ol \<noteq> OStr) (map outline_of bs)"
proof (induction bs)
  case Nil
  show ?case by simp
next
  case (Cons b bs)
  then show ?case by (cases b) simp_all
qed

lemma widths_outline:
  "list_all (\<lambda>b. table_width b \<le> c) bs = list_all (\<lambda>ol. outline_width ol \<le> c) (map outline_of bs)"
proof (induction bs)
  case Nil
  show ?case by simp
next
  case (Cons b bs)
  then show ?case by (cases b) simp_all
qed

lemma content_width_doc: "content_width doc = 75449999919 / 127000000"
  by (simp add: content_width_def doc_def A4_def units_mm_def mm_def inch_def)

lemma break_outline: "(b = PageBreak) = (outline_of b = OBreak)"
  by (cases b) simp_all

lemma break_in_outline: "(PageBreak \<in> set bs) = (OBreak \<in> set (map outline_of bs))"
proof (induction bs)
  case Nil
  show ?case by simp
next
  case (Cons b bs)
  then show ?case by (cases b) simp_all
qed

lemma count_breaks_outline:
  "length (filter (\<lambda>b. b = PageBreak) bs) = length (filter (\<lambda>ol. ol = OBreak) (map outline_of bs))"
  by (induction bs) (auto simp: break_outline)

lemma ends_with_break_outline:
  "ends_with_break bs =
     (map outline_of bs \<noteq> [] \<and> last (map outline_of bs) = OBreak \<and>
      OBreak \<notin> set (butlast (map outline_of bs)))"
proof (cases "bs = []")
  case True
  then show ?thesis by (simp add: ends_with_break_def)
next
  case False
  have "(PageBreak \<in> set (butlast bs)) = (OBreak \<in> set (butlast (map outline_of bs)))"
    by (simp add: break_in_outline map_butlast)
  with False show ?thesis
    by (simp add: ends_with_break_def last_map break_outline)
qed

lemma ends_with_breakI:
  "map outline_of bs = os \<Longrightarrow> os \<noteq> [] \<and> last os = OBreak \<and> OBreak \<notin> set (butlast os) \<Longrightarrow>
   ends_with_break bs"
  using ends_with_break_outline by blast

lemma headings_outline: "styled_texts ''CustomHeading'' bs = headings (map outline_of bs)"
proof (induction bs)
  case Nil
  show ?case by simp
next
  case (Cons b bs)
  then show ?case by (cases b) simp_all
qed

lemma hd_outline: "map outline_of bs = ol # os \<Longrightarrow> outline_of (hd bs) = ol"
  by (cases bs) simp_all

lemma last_outline: "bs \<noteq> [] \<Longrightarrow> outline_of (last bs) = last (map outline_of bs)"
  by (simp add: last_map)

subsection \<open>Cutting a block list at its page breaks\<close>

lemma split_no_break: "PageBreak \<notin> set bs \<Longrightarrow> split_at_breaks cur bs = [cur @ bs]"
  by (induction bs arbitrary: cur) auto

lemma split_one_break:
  "PageBreak \<notin> set cs \<Longrightarrow>
   split_at_breaks cur (cs @ PageBreak # rest) = (cur @ cs) # split_at_breaks [] rest"
  by (induction cs arbitrary: cur) auto

lemma split_sections:
  assumes "list_all ends_with_break bss" and "PageBreak \<notin> set fin"
  shows "split_at_breaks cur (concat bss @ fin) =
     (cur @ hd (map butlast bss @ [fin])) # tl (map butlast bss @ [fin])"
  using assms
proof (induction bss arbitrary: cur)
  case Nil
  then show ?case by (simp add: split_no_break)
next
  case (Cons b bss)
  from Cons.prems have eb: "ends_with_break b" and rest: "list_all ends_with_break bss"
    by simp_all
  from eb have nb: "PageBreak \<notin> set (butlast b)"
    by (simp add: ends_with_break_def)
  from eb have "b \<noteq> []" and "last b = PageBreak"
    by (simp_all add: ends_with_break_def)
  then have b: "b = butlast b @ [PageBreak]"
    by (metis append_butlast_last_id)
  have "split_at_breaks cur (concat (b # bss) @ fin) =
      split_at_breaks cur (butlast b @ PageBreak # (concat bss @ fin))"
    by (subst b) simp
  also have "\<dots> = (cur @ butlast b) # split_at_breaks [] (concat bss @ fin)"
    using nb by (rule split_one_break)
  also have "split_at_breaks [] (concat bss @ fin) = map butlast bss @ [fin]"
    using Cons.IH [OF rest Cons.prems(2), of "[]"] by (cases bss) simp_all
  finally show ?case by simp
qed

subsection \<open>Failure and success of the construction\<close>

lemma new_ParagraphStyle_Inl:
  "(new_ParagraphStyle styles name key attrs = Inl e) = (e = KeyError key \<and> map_of styles key = None)"
  by (auto simp: new_ParagraphStyle_def and_then_def getitem_def split: option.splits)

lemma new_ParagraphStyle_Inr:
  "(\<exists>st. new_ParagraphStyle styles name key attrs = Inr st) = (map_of styles key \<noteq> None)"
  by (auto simp: new_ParagraphStyle_def and_then_def getitem_def split: option.splits)

lemma and_then_Inl: "(and_then r f = Inl e) = (r = Inl e \<or> (\<exists>x. r = Inr x \<and> f x = Inl e))"
  by (cases r) (simp_all add: and_then_def)

lemma and_then_Inr: "(and_then r f = Inr y) = (\<exists>x. r = Inr x \<and> f x = Inr y)"
  by (cases r) (simp_all add: and_then_def)

lemma new_style_then_Inl:
  assumes "and_then (new_ParagraphStyle styles name key attrs) f = Inl e"
  obtains "e = KeyError key" and "map_of styles key = None" | st where "f st = Inl e"
  using assms by (auto simp: and_then_Inl new_ParagraphStyle_Inl)

lemma define_styles_Inl:
  assumes "define_styles styles = Inl e"
  shows "\<exists>k. e = KeyError k \<and> k \<in> set parent_names \<and> map_of styles k = None"
  using assms unfolding define_styles_def
  by (elim new_style_then_Inl) (simp_all add: parent_names_def)

lemma define_styles_Inr:
  "(\<exists>S. define_styles styles = Inr S) = list_all (\<lambda>k. map_of styles k \<noteq> None) parent_names"
proof -
  have "(\<exists>S. define_styles styles = Inr S) =
      ((\<exists>st. new_ParagraphStyle styles ''CustomTitle'' ''Heading1'' [fontSize 28, textColor (HexColor ''#FFFFFF''), spaceAfter 6, alignment TA_CENTER, fontName ''Helvetica-Bold''] = Inr st) \<and>
       (\<exists>st. new_ParagraphStyle styles ''CustomHeading'' ''Heading2'' [fontSize 16, textColor (HexColor ''#FFFFFF''), spaceAfter 12, spaceBefore 12, fontName ''Helvetica-Bold'', backColor (HexColor ''#667eea'')] = Inr st) \<and>
       (\<exists>st. new_ParagraphStyle styles ''CustomSubHeading'' ''Heading3'' [fontSize 13, textColor (HexColor ''#333333''), spaceAfter 10, spaceBefore 10, fontName ''Helvetica-Bold''] = Inr st) \<and>
       (\<exists>st. new_ParagraphStyle styles ''CustomBody'' ''BodyText'' [fontSize 10, textColor (HexColor ''#333333''), spaceAfter 8, alignment TA_JUSTIFY] = Inr st) \<and>
       (\<exists>st. new_ParagraphStyle styles ''CodeStyle'' ''Normal'' [fontSize 8, textColor (HexColor ''#d4d4d4''), backColor (HexColor ''#1e1e1e''), spaceAfter 6, fontName ''Courier''] = Inr st))"
    unfolding define_styles_def and_then_Inr by blast
  then show ?thesis
    unfolding new_ParagraphStyle_Inr by (simp add: parent_names_def)
qed

lemma sections_total:
  assumes n: "getitem styles ''Normal'' = Inr n"
  shows "\<exists>es.
     and_then (title_page styles S []) (\<lambda>elements.
     and_then (table_of_contents styles S elements) (\<lambda>elements.
     and_then (authentication_section styles S elements) (\<lambda>elements.
     and_then (user_endpoints styles S elements) (\<lambda>elements.
     and_then (medicine_store styles S elements) (\<lambda>elements.
     and_then (admin_store styles S elements) (\<lambda>elements.
     and_then (items_section styles S elements) (\<lambda>elements.
     and_then (location_section styles S elements) (\<lambda>elements.
     and_then (units_section styles S elements) (\<lambda>elements.
     and_then (gst_section styles S elements) (\<lambda>elements.
     and_then (orders_section styles S elements) (\<lambda>elements.
     and_then (payments_section styles S elements) (\<lambda>elements.
     and_then (notifications_section styles S elements) (\<lambda>elements.
     and_then (response_formats styles S elements) (\<lambda>elements.
     footer_section styles S elements)))))))))))))) = Inr es"
proof -
  obtain b1 where b1: "\<And>es. title_page styles S es = Inr (es @ b1)"
    using title_page_appends [OF n] by blast
  obtain b2 where b2: "\<And>es. table_of_contents styles S es = Inr (es @ b2)"
    using table_of_contents_appends by blast
  obtain b3 where b3: "\<And>es. authentication_section styles S es = Inr (es @ b3)"
    using authentication_section_appends by blast
  obtain b4 where b4: "\<And>es. user_endpoints styles S es = Inr (es @ b4)"
    using user_endpoints_appends [OF n] by blast
  obtain b5 where b5: "\<And>es. medicine_store styles S es = Inr (es @ b5)"
    using medicine_store_appends [OF n] by blast
  obtain b6 where b6: "\<And>es. admin_store styles S es = Inr (es @ b6)"
    using admin_store_appends [OF n] by blast
  obtain b7 where b7: "\<And>es. items_section styles S es = Inr (es @ b7)"
    using items_section_appends [OF n] by blast
  obtain b8 where b8: "\<And>es. location_section styles S es = Inr (es @ b8)"
    using location_section_appends [OF n] by blast
  obtain b9 where b9: "\<And>es. units_section styles S es = Inr (es @ b9)"
    using units_section_appends by blast
  obtain b10 where b10: "\<And>es. gst_section styles S es = Inr (es @ b10)"
    using gst_section_appends by blast
  obtain b11 where b11: "\<And>es. orders_section styles S es = Inr (es @ b11)"
    using orders_section_appends by blast
  obtain b12 where b12: "\<And>es. payments_section styles S es = Inr (es @ b12)"
    using payments_section_appends by blast
  obtain b13 where b13: "\<And>es. notifications_section styles S es = Inr (es @ b13)"
    using notifications_section_appends [OF n] by blast
  obtain b14 where b14: "\<And>es. response_formats styles S es = Inr (es @ b14)"
    using response_formats_appends by blast
  obtain b15 where b15: "\<And>es. footer_section styles S es = Inr (es @ b15)"
    using footer_section_appends [OF n] by blast
  show ?thesis
    by (simp add: and_then_def b1 b2 b3 b4 b5 b6 b7 b8 b9 b10 b11 b12 b13 b14 b15)
qed

lemma build_elements_Inl:
  assumes "build_elements styles = Inl e"
  shows "define_styles styles = Inl e"
proof (cases "define_styles styles")
  case (Inl e')
  with assms show ?thesis by (simp add: build_elements_def and_then_def)
next
  case (Inr S)
  then have "list_all (\<lambda>k. map_of styles k \<noteq> None) parent_names"
    using define_styles_Inr by blast
  then obtain n where "getitem styles ''Normal'' = Inr n"
    by (auto simp: parent_names_def getitem_def)
  from sections_total [OF this, of S] Inr assms show ?thesis
    by (simp add: build_elements_def and_then_def)
qed

lemma build_elements_Inr:
  "(\<exists>es. build_elements styles = Inr es) = list_all (\<lambda>k. map_of styles k \<noteq> None) parent_names"
proof
  assume "\<exists>es. build_elements styles = Inr es"
  then have "\<exists>S. define_styles styles = Inr S"
    by (auto simp: build_elements_def and_then_Inr)
  then show "list_all (\<lambda>k. map_of styles k \<noteq> None) parent_names"
    by (simp add: define_styles_Inr)
next
  assume "list_all (\<lambda>k. map_of styles k \<noteq> None) parent_names"
  then have "\<not> (\<exists>e. define_styles styles = Inl e)"
    using define_styles_Inr [of styles] by auto
  then have "\<not> (\<exists>e. build_elements styles = Inl e)"
    using build_elements_Inl by blast
  then show "\<exists>es. build_elements styles = Inr es"
    by (cases "build_elements styles") auto
qed

subsection \<open>What a run does to the files\<close>

lemma filename_doc: "filename doc = pdf_filename"
  by (simp add: doc_def)

lemma print_Inr:
  "print ev s w = Inr w' \<Longrightarrow>
   files w' = files w \<and> unwritable w' = unwritable w \<and> space w' = space w"
  by (auto simp: print_def split: if_splits)

lemma print_all_files: "files (snd (print_all ev ss w)) = files w"
proof (induction ss arbitrary: w)
  case Nil
  show ?case by simp
next
  case (Cons s ss)
  show ?case
  proof (cases "print ev s w")
    case (Inl e)
    then show ?thesis by simp
  next
    case (Inr w')
    with Cons.IH [of w'] print_Inr [OF Inr] show ?thesis by simp
  qed
qed

lemma print_all_Inr: "fst (print_all ev ss w) = Inr u \<Longrightarrow> u = ()"
  by simp

lemma build_success:
  "build E ev d fl w = (Inr u, w') \<Longrightarrow>
   \<exists>pgs. layout E d fl = Inr pgs \<and> filename d \<notin> unwritable w \<and>
     files w' = (files w)(filename d \<mapsto> serialise E (now ev) d pgs)"
  by (auto simp: build_def split: sum.splits if_splits)



lemma run_is_build_pdf: "create_api_pdf E ev w = build_pdf E ev doc elements w"
  by (simp add: create_api_pdf_def build_elements_sample)

lemma run_success:
  assumes "fst (create_api_pdf E ev w) = Inr ()"
  shows "\<exists>pgs. layout E doc elements = Inr pgs \<and> pdf_filename \<notin> unwritable w \<and>
     files (snd (create_api_pdf E ev w)) = (files w)(pdf_filename \<mapsto> serialise E (now ev) doc pgs)"
proof (cases "print ev announcement w")
  case (Inl e)
  with assms show ?thesis by (simp add: run_is_build_pdf build_pdf_def)
next
  case (Inr w1)
  note w1 = print_Inr [OF Inr]
  obtain r w2 where b: "build E ev doc elements w1 = (r, w2)"
    by (cases "build E ev doc elements w1")
  show ?thesis
  proof (cases r)
    case (Inl e)
    with Inr b assms show ?thesis by (simp add: run_is_build_pdf build_pdf_def)
  next
    case r: (Inr u)
    from build_success [OF b [unfolded r]] w1 obtain pgs where
      "layout E doc elements = Inr pgs" and "pdf_filename \<notin> unwritable w" and
      "files w2 = (files w)(pdf_filename \<mapsto> serialise E (now ev) doc pgs)"
      by (auto simp: filename_doc)
    moreover have "files (snd (create_api_pdf E ev w)) = files w2"
      using Inr b r by (simp add: run_is_build_pdf build_pdf_def print_all_files)
    ultimately show ?thesis by simp
  qed
qed

lemma tables_fit_content_width:
  "list_all (\<lambda>b. table_width b \<le> content_width doc) elements"
  by (subst widths_outline)
     (simp add: content_width_doc elements_sections api_sections_def section_outlines)

subsection \<open>Sections and their titles\<close>

lemma table_of_contents_blocks:
  \<open>section_blocks table_of_contents =
     Paragraph ([CHR 0xF0, CHR 0x9F, CHR 0x93, CHR 0x91] @ '' Table of Contents'') (heading_style the_styles)
     # concat (map (\<lambda>item. [Paragraph item (body_style the_styles), Spacer 1 (0.1 * inch)]) toc_items)
     @ [PageBreak]\<close>
  by (simp add: section_blocks_def table_of_contents_def Let_def fold_appends)

lemma section_titles_eq:
  \<open>section_titles =
     [([CHR 0xF0, CHR 0x9F, CHR 0x94, CHR 0x90] @ '' Authentication & Authorization''),
      ([CHR 0xF0, CHR 0x9F, CHR 0x91, CHR 0xA4] @ '' User Management Endpoints''),
      ([CHR 0xF0, CHR 0x9F, CHR 0x92, CHR 0x8A] @ '' Medicine Store Endpoints''),
      ([CHR 0xE2, CHR 0x9A, CHR 0x99, CHR 0xEF, CHR 0xB8, CHR 0x8F] @ '' Admin Store Management''),
      ([CHR 0xF0, CHR 0x9F, CHR 0x93, CHR 0xA6] @ '' Items Management''),
      ([CHR 0xF0, CHR 0x9F, CHR 0x97, CHR 0xBA, CHR 0xEF, CHR 0xB8, CHR 0x8F] @ '' Location Services''),
      ([CHR 0xF0, CHR 0x9F, CHR 0x93, CHR 0x8F] @ '' Unit Management''),
      ([CHR 0xF0, CHR 0x9F, CHR 0x92, CHR 0xB0] @ '' GST Rate Management''),
      ([CHR 0xF0, CHR 0x9F, CHR 0x93, CHR 0x8B] @ '' Orders''),
      ([CHR 0xF0, CHR 0x9F, CHR 0x92, CHR 0xB3] @ '' Payments''),
      ([CHR 0xF0, CHR 0x9F, CHR 0x94, CHR 0x94] @ '' Notifications''),
      ([CHR 0xF0, CHR 0x9F, CHR 0x93, CHR 0x8A] @ '' Standard Response Formats'')]\<close>
  by (simp add: section_titles_def headings_outline api_sections_def section_outlines)

lemma sections_end_with_break:
  "list_all (\<lambda>sec. ends_with_break (section_blocks sec)) ([title_page, table_of_contents] @ api_sections)"
  by (simp add: api_sections_def section_outlines [THEN ends_with_breakI])

lemma footer_has_no_break: "PageBreak \<notin> set (section_blocks footer_section)"
  by (simp add: break_in_outline section_outlines)

lemma pages_sections:
  "pages = map (\<lambda>sec. butlast (section_blocks sec)) ([title_page, table_of_contents] @ api_sections)
     @ [section_blocks footer_section]"
proof -
  let ?secs = "[title_page, table_of_contents] @ api_sections"
  have "list_all ends_with_break (map section_blocks ?secs)"
    using sections_end_with_break by (simp only: list.pred_map comp_def)
  from split_sections [OF this footer_has_no_break, of "[]"]
  have "pages = hd (map butlast (map section_blocks ?secs) @ [section_blocks footer_section])
      # tl (map butlast (map section_blocks ?secs) @ [section_blocks footer_section])"
    by (simp only: pages_def elements_sections append_Nil)
  also have "\<dots> = map butlast (map section_blocks ?secs) @ [section_blocks footer_section]"
    by simp
  finally show ?thesis
    by (simp only: map_map comp_def)
qed

lemma last_element_outline: "outline_of (last elements) = OPara ''Footer''"
proof -
  have ne: "section_blocks footer_section \<noteq> []"
    using footer_section_outline by auto
  then have "last elements = last (section_blocks footer_section)"
    by (simp add: elements_sections)
  with ne show ?thesis
    by (simp add: last_outline footer_section_outline)
qed

section \<open>The claims\<close>

text \<open>
  C2. Building the block list is pure: it takes the style sheet and returns the list or an
  exception, and a run touches the world only afterwards, in \<open>build_pdf\<close>. On the sample
  style sheet it succeeds. On any style sheet it succeeds exactly when every style name
  the program looks up is defined, and otherwise fails with the \<open>KeyError\<close> of an
  undefined name (Python's exception for the missing style, the configuration error of
  the specification): a missing style is never replaced by a default.
\<close>

theorem construction_fails_only_on_undefined_style:
  "create_api_pdf E ev w = build_pdf E ev doc elements w \<and>
   build_elements getSampleStyleSheet = Inr elements \<and>
   (\<exists>es. build_elements styles = Inr es) = list_all (\<lambda>k. map_of styles k \<noteq> None) parent_names \<and>
   (build_elements styles = Inl e \<longrightarrow>
      (\<exists>k. e = KeyError k \<and> k \<in> set parent_names \<and> map_of styles k = None))"
proof -
  have "build_elements styles = Inl e \<longrightarrow>
      (\<exists>k. e = KeyError k \<and> k \<in> set parent_names \<and> map_of styles k = None)"
    using define_styles_Inl [OF build_elements_Inl] by blast
  with run_is_build_pdf build_elements_sample build_elements_Inr show ?thesis
    by blast
qed

theorem construction_fails_only_on_undefined_style_witness:
  "build_elements [] = Inl (KeyError ''Heading1'') \<and>
   (\<exists>k. KeyError ''Heading1'' = KeyError k \<and> k \<in> set parent_names \<and>
      map_of ([] :: stylesheet) k = None)"
  using construction_fails_only_on_undefined_style [where styles = "[]" and e = "KeyError ''Heading1''"]
  by (simp add: build_elements_def define_styles_def new_ParagraphStyle_def getitem_def and_then_def)

text \<open>
  C3. The blocks are appended in document order: the title page blocks, the table of
  contents, the twelve API sections and the closing block. Each of the first fourteen
  sections ends with its only PageBreak, so the page breaks cut the list exactly between
  the sections; the title page is a spacer, the title table, a spacer and the metadata
  table; the table of contents is its heading and one paragraph and spacer per entry; every
  API section opens with its heading; and the closing footer paragraph is the last block.
\<close>

theorem blocks_in_document_order:
  \<open>elements = concat (map section_blocks ([title_page, table_of_contents] @ api_sections))
       @ section_blocks footer_section \<and>
   length api_sections = 12 \<and>
   list_all (\<lambda>sec. ends_with_break (section_blocks sec))
     ([title_page, table_of_contents] @ api_sections) \<and>
   pages = map (\<lambda>sec. butlast (section_blocks sec)) ([title_page, table_of_contents] @ api_sections)
       @ [section_blocks footer_section] \<and>
   length (filter (\<lambda>b. b = PageBreak) elements) = 14 \<and>
   map outline_of (section_blocks title_page) = [OSpacer, OTable 504, OSpacer, OTable 288, OBreak] \<and>
   section_blocks table_of_contents =
     Paragraph ([CHR 0xF0, CHR 0x9F, CHR 0x93, CHR 0x91] @ '' Table of Contents'') (heading_style the_styles)
     # concat (map (\<lambda>item. [Paragraph item (body_style the_styles), Spacer 1 (0.1 * inch)]) toc_items)
     @ [PageBreak] \<and>
   map (\<lambda>sec. hd (map outline_of (section_blocks sec))) api_sections = map OHeading
     [([CHR 0xF0, CHR 0x9F, CHR 0x94, CHR 0x90] @ '' Authentication & Authorization''),
      ([CHR 0xF0, CHR 0x9F, CHR 0x91, CHR 0xA4] @ '' User Management Endpoints''),
      ([CHR 0xF0, CHR 0x9F, CHR 0x92, CHR 0x8A] @ '' Medicine Store Endpoints''),
      ([CHR 0xE2, CHR 0x9A, CHR 0x99, CHR 0xEF, CHR 0xB8, CHR 0x8F] @ '' Admin Store Management''),
      ([CHR 0xF0, CHR 0x9F, CHR 0x93, CHR 0xA6] @ '' Items Management''),
      ([CHR 0xF0, CHR 0x9F, CHR 0x97, CHR 0xBA, CHR 0xEF, CHR 0xB8, CHR 0x8F] @ '' Location Services''),
      ([CHR 0xF0, CHR 0x9F, CHR 0x93, CHR 0x8F] @ '' Unit Management''),
      ([CHR 0xF0, CHR 0x9F, CHR 0x92, CHR 0xB0] @ '' GST Rate Management''),
      ([CHR 0xF0, CHR 0x9F, CHR 0x93, CHR 0x8B] @ '' Orders''),
      ([CHR 0xF0, CHR 0x9F, CHR 0x92, CHR 0xB3] @ '' Payments''),
      ([CHR 0xF0, CHR 0x9F, CHR 0x94, CHR 0x94] @ '' Notifications''),
      ([CHR 0xF0, CHR 0x9F, CHR 0x93, CHR 0x8A] @ '' Standard Response Formats'')] \<and>
   map outline_of (section_blocks footer_section) = [OPara ''Footer''] \<and>
   outline_of (last elements) = OPara ''Footer''\<close>
proof -
  have n: "length api_sections = 12"
    by (simp add: api_sections_def)
  have breaks: "length (filter (\<lambda>b. b = PageBreak) elements) = 14"
    by (simp add: count_breaks_outline elements_sections api_sections_def section_outlines)
  have heads: \<open>map (\<lambda>sec. hd (map outline_of (section_blocks sec))) api_sections = map OHeading
     [([CHR 0xF0, CHR 0x9F, CHR 0x94, CHR 0x90] @ '' Authentication & Authorization''),
      ([CHR 0xF0, CHR 0x9F, CHR 0x91, CHR 0xA4] @ '' User Management Endpoints''),
      ([CHR 0xF0, CHR 0x9F, CHR 0x92, CHR 0x8A] @ '' Medicine Store Endpoints''),
      ([CHR 0xE2, CHR 0x9A, CHR 0x99, CHR 0xEF, CHR 0xB8, CHR 0x8F] @ '' Admin Store Management''),
      ([CHR 0xF0, CHR 0x9F, CHR 0x93, CHR 0xA6] @ '' Items Management''),
      ([CHR 0xF0, CHR 0x9F, CHR 0x97, CHR 0xBA, CHR 0xEF, CHR 0xB8, CHR 0x8F] @ '' Location Services''),
      ([CHR 0xF0, CHR 0x9F, CHR 0x93, CHR 0x8F] @ '' Unit Management''),
      ([CHR 0xF0, CHR 0x9F, CHR 0x92, CHR 0xB0] @ '' GST Rate Management''),
      ([CHR 0xF0, CHR 0x9F, CHR 0x93, CHR 0x8B] @ '' Orders''),
      ([CHR 0xF0, CHR 0x9F, CHR 0x92, CHR 0xB3] @ '' Payments''),
      ([CHR 0xF0, CHR 0x9F, CHR 0x94, CHR 0x94] @ '' Notifications''),
      ([CHR 0xF0, CHR 0x9F, CHR 0x93, CHR 0x8A] @ '' Standard Response Formats'')]\<close>
    by (simp add: api_sections_def section_outlines)
  from elements_sections n sections_end_with_break pages_sections breaks title_page_outline
    table_of_contents_blocks heads footer_section_outline last_element_outline
  show ?thesis
    by (intro conjI)
qed

text \<open>
  C5. Every run hands the same template and the same block list to the engine, whatever
  the arguments, the environment or the clock. Two successful runs with the same engine
  therefore have the same pagination (the same assignment of blocks to pages), and their
  artifacts are serialised from it; only the time passed to the serialiser can differ. The
  date and the endpoint count are literals: the metadata table, the fourth block, has the
  rows \<open>Generated, February 17, 2026\<close> and \<open>Endpoints, 30+\<close>, and the closing paragraph
  contains the same date and count.
\<close>

theorem rendering_is_deterministic:
  "create_api_pdf E ev w = build_pdf E ev doc elements w \<and>
   (fst (create_api_pdf E ev_a w_a) = Inr () \<and> fst (create_api_pdf E ev_b w_b) = Inr () \<longrightarrow>
      (\<exists>pgs. layout E doc elements = Inr pgs \<and>
         files (snd (create_api_pdf E ev_a w_a)) pdf_filename = Some (serialise E (now ev_a) doc pgs) \<and>
         files (snd (create_api_pdf E ev_b w_b)) pdf_filename = Some (serialise E (now ev_b) doc pgs))) \<and>
   metadata_data ! 1 = [Str ''Generated'', Str ''February 17, 2026''] \<and>
   metadata_data ! 3 = [Str ''Endpoints'', Str ''30+''] \<and>
   elements ! 3 = metadata_table \<and>
   (\<exists>t st. last elements = Paragraph t st \<and>
      contains t ''<b>Generated:</b> February 17, 2026'' \<and>
      contains t ''<b>Total Endpoints:</b> 30+'')"
proof -
  have same: "fst (create_api_pdf E ev_a w_a) = Inr () \<and> fst (create_api_pdf E ev_b w_b) = Inr () \<longrightarrow>
      (\<exists>pgs. layout E doc elements = Inr pgs \<and>
         files (snd (create_api_pdf E ev_a w_a)) pdf_filename = Some (serialise E (now ev_a) doc pgs) \<and>
         files (snd (create_api_pdf E ev_b w_b)) pdf_filename = Some (serialise E (now ev_b) doc pgs))"
  proof
    assume ok: "fst (create_api_pdf E ev_a w_a) = Inr () \<and> fst (create_api_pdf E ev_b w_b) = Inr ()"
    from ok run_success [of E ev_a w_a] obtain pgs where
      p1: "layout E doc elements = Inr pgs" and
      f1: "files (snd (create_api_pdf E ev_a w_a)) = (files w_a)(pdf_filename \<mapsto> serialise E (now ev_a) doc pgs)"
      by blast
    from ok run_success [of E ev_b w_b] obtain pgs' where
      p2: "layout E doc elements = Inr pgs'" and
      f2: "files (snd (create_api_pdf E ev_b w_b)) = (files w_b)(pdf_filename \<mapsto> serialise E (now ev_b) doc pgs')"
      by blast
    from p1 p2 have "pgs' = pgs" by simp
    with p1 f1 f2 show "\<exists>pgs. layout E doc elements = Inr pgs \<and>
         files (snd (create_api_pdf E ev_a w_a)) pdf_filename = Some (serialise E (now ev_a) doc pgs) \<and>
         files (snd (create_api_pdf E ev_b w_b)) pdf_filename = Some (serialise E (now ev_b) doc pgs)"
      by simp
  qed
  have rows: "metadata_data ! 1 = [Str ''Generated'', Str ''February 17, 2026''] \<and>
      metadata_data ! 3 = [Str ''Endpoints'', Str ''30+'']"
    by (simp add: metadata_data_def)
  have "section_blocks title_page ! 3 = metadata_table \<and> length (section_blocks title_page) = 5"
    by (simp add: section_blocks_def title_page_def new_ParagraphStyle_def and_then_def Let_def
        getitem_sample_Normal)
  then have fourth: "elements ! 3 = metadata_table"
    by (simp add: elements_sections nth_append)
  have "\<exists>t st. section_blocks footer_section = [Paragraph t st] \<and>
      contains t ''<b>Generated:</b> February 17, 2026'' \<and>
      contains t ''<b>Total Endpoints:</b> 30+''"
    by (simp add: section_blocks_def footer_section_def new_ParagraphStyle_def and_then_def Let_def
        getitem_sample_Normal)
  then have closing: "\<exists>t st. last elements = Paragraph t st \<and>
      contains t ''<b>Generated:</b> February 17, 2026'' \<and>
      contains t ''<b>Total Endpoints:</b> 30+''"
    by (auto simp: elements_sections)
  from run_is_build_pdf same rows fourth closing show ?thesis
    by blast
qed

theorem rendering_is_deterministic_witness:
  "fst (create_api_pdf one_page_engine (plain_run\<lparr>now := 1\<rparr>) empty_world) = Inr () \<and>
   fst (create_api_pdf one_page_engine
          (plain_run\<lparr>argv := [''x''], environ := [(''TZ'', ''UTC'')], now := 2\<rparr>)
          (empty_world\<lparr>stdout := [''earlier output'']\<rparr>)) = Inr () \<and>
   (\<exists>pgs. layout one_page_engine doc elements = Inr pgs \<and>
      files (snd (create_api_pdf one_page_engine (plain_run\<lparr>now := 1\<rparr>) empty_world))
        pdf_filename = Some (serialise one_page_engine 1 doc pgs) \<and>
      files (snd (create_api_pdf one_page_engine
          (plain_run\<lparr>argv := [''x''], environ := [(''TZ'', ''UTC'')], now := 2\<rparr>)
          (empty_world\<lparr>stdout := [''earlier output'']\<rparr>))) pdf_filename
        = Some (serialise one_page_engine 2 doc pgs))"
  using rendering_is_deterministic
    [where E = one_page_engine
       and ev_a = "plain_run\<lparr>now := 1\<rparr>"
       and w_a = empty_world
       and ev_b = "plain_run\<lparr>argv := [''x''], environ := [(''TZ'', ''UTC'')], now := 2\<rparr>"
       and w_b = "empty_world\<lparr>stdout := [''earlier output'']\<rparr>"]
  by (simp add: run_is_build_pdf build_pdf_def build_def print_def filename_doc print_all_files
      one_page_engine_def empty_world_def plain_run_def report_def)

text \<open>
  C6 (as amended). If the output path cannot be opened for writing, the run fails and the
  files are exactly as before it: no artifact is created at that path and none that was
  there is touched. The failure is the \<open>OSError\<close> of the path when the announcement was
  printed and the layout succeeded; otherwise it is the error of the announcement or of the
  layout, which come first.
\<close>

theorem unopenable_path_leaves_files_unchanged:
  "pdf_filename \<in> unwritable w \<Longrightarrow>
   files (snd (create_api_pdf E ev w)) = files w \<and>
   fst (create_api_pdf E ev w) =
     (if stdout_encodes ev announcement
      then (case layout E doc elements of
              Inl e \<Rightarrow> Inl e
            | Inr pgs \<Rightarrow> Inl (OSError pdf_filename))
      else Inl (UnicodeEncodeError announcement))"
  by (simp add: run_is_build_pdf build_pdf_def build_def print_def filename_doc
      split: sum.splits)

theorem unopenable_path_leaves_files_unchanged_witness:
  "pdf_filename \<in> unwritable (empty_world\<lparr>unwritable := {pdf_filename}\<rparr>) \<and>
   files (snd (create_api_pdf one_page_engine plain_run
     (empty_world\<lparr>unwritable := {pdf_filename}\<rparr>))) pdf_filename = None \<and>
   fst (create_api_pdf one_page_engine plain_run (empty_world\<lparr>unwritable := {pdf_filename}\<rparr>))
     = Inl (OSError pdf_filename)"
  using unopenable_path_leaves_files_unchanged
    [of "empty_world\<lparr>unwritable := {pdf_filename}\<rparr>" one_page_engine plain_run]
  by (simp add: one_page_engine_def empty_world_def plain_run_def)

text \<open>
  The claim as written promises an atomic write: no truncated or partial file, the output
  location unchanged on failure. The program has no temporary file and no cleanup, and the
  file is emptied when it is opened. Where the path can be opened and one byte can still be
  written, the run fails with \<open>OSError\<close>, and the earlier artifact \<open>old\<close> has been
  replaced by the first byte of the new one.
\<close>

theorem failed_write_leaves_partial_file:
  "fst (create_api_pdf one_page_engine plain_run
          (empty_world\<lparr>files := [pdf_filename \<mapsto> ''old''], space := 1\<rparr>))
     = Inl (OSError pdf_filename) \<and>
   files (snd (create_api_pdf one_page_engine plain_run
          (empty_world\<lparr>files := [pdf_filename \<mapsto> ''old''], space := 1\<rparr>))) pdf_filename
     = Some ''n''"
  by (simp add: run_is_build_pdf build_pdf_def build_def print_def filename_doc
      one_page_engine_def empty_world_def plain_run_def)



text \<open>
  C8. Every element of the constructed block list is a Paragraph, a Table, a Spacer or a
  PageBreak; nothing else (no bare string) is appended.
\<close>

theorem every_element_is_a_block: "list_all is_block elements"
  by (simp add: blocks_outline elements_sections api_sections_def section_outlines)

text \<open>
  C9. The margins handed to the engine are the bare products \<open>15 * mm\<close> and
  \<open>20 * mm\<close> with \<open>mm = 0.0393701\<close>, the number of inches in a millimetre. The engine
  reads them as points: they are about 0.59 and 0.79 points, not the 42.5 and 56.7 points
  of 15 and 20 millimetres, and the content width on the A4 page is about 594 points or
  8.25 inches, not the 7.08 inches that side margins of 15 millimetres would leave. Every
  run uses this template.
\<close>

theorem margins_are_fractions_of_a_point:
  "rightMargin doc = 15 * mm \<and> leftMargin doc = 15 * mm \<and>
   topMargin doc = 20 * mm \<and> bottomMargin doc = 20 * mm \<and>
   1 < mm * 25.4 \<and> mm * 25.4 < 1.000001 \<and>
   0.59 < leftMargin doc \<and> leftMargin doc < 0.591 \<and>
   0.787 < topMargin doc \<and> topMargin doc < 0.788 \<and>
   leftMargin doc \<noteq> 15 * units_mm \<and> topMargin doc \<noteq> 20 * units_mm \<and>
   42.5 < 15 * units_mm \<and> 56.6 < 20 * units_mm \<and>
   594 < content_width doc \<and> content_width doc < 594.1 \<and>
   8.25 < content_width doc / inch \<and> content_width doc / inch < 8.26 \<and>
   7.08 < (fst A4 - 2 * (15 * units_mm)) / inch \<and> (fst A4 - 2 * (15 * units_mm)) / inch < 7.09 \<and>
   create_api_pdf E ev w = build_pdf E ev doc elements w"
proof -
  have margins: "rightMargin doc = 15 * mm \<and> leftMargin doc = 15 * mm \<and>
      topMargin doc = 20 * mm \<and> bottomMargin doc = 20 * mm"
    by (simp add: doc_def)
  have conversion: "1 < mm * 25.4 \<and> mm * 25.4 < 1.000001"
    by (simp add: mm_def)
  have points: "0.59 < leftMargin doc \<and> leftMargin doc < 0.591 \<and>
      0.787 < topMargin doc \<and> topMargin doc < 0.788 \<and>
      leftMargin doc \<noteq> 15 * units_mm \<and> topMargin doc \<noteq> 20 * units_mm \<and>
      42.5 < 15 * units_mm \<and> 56.6 < 20 * units_mm"
    by (simp add: doc_def mm_def units_mm_def inch_def)
  have width: "594 < content_width doc \<and> content_width doc < 594.1 \<and>
      8.25 < content_width doc / inch \<and> content_width doc / inch < 8.26"
    by (simp add: content_width_doc inch_def)
  have intended: "7.08 < (fst A4 - 2 * (15 * units_mm)) / inch \<and>
      (fst A4 - 2 * (15 * units_mm)) / inch < 7.09"
    by (simp add: A4_def units_mm_def inch_def)
  have run: "create_api_pdf E ev w = build_pdf E ev doc elements w"
    by (simp add: create_api_pdf_def build_elements_sample)
  from margins conversion points width intended run show ?thesis
    by blast
qed

text \<open>
  C10. The table of contents lists exactly twelve entries, numbered 1 to 12, each appended
  as a body paragraph. The body has exactly twelve heading-styled section titles, one at
  the start of each API section (the only other heading-styled paragraph is the heading of
  the table of contents itself). The titles are in the order of the entries: the title at
  each position, and no other title, names the topic of the entry at that position, from
  \<open>Authentication & Authorization\<close> to \<open>Response Formats\<close>.
\<close>

theorem toc_matches_section_titles:
  \<open>length toc_items = 12 \<and>
   map entry_number toc_items = [1..<13] \<and>
   styled_texts ''CustomBody'' (section_blocks table_of_contents) = toc_items \<and>
   section_titles =
     [([CHR 0xF0, CHR 0x9F, CHR 0x94, CHR 0x90] @ '' Authentication & Authorization''),
      ([CHR 0xF0, CHR 0x9F, CHR 0x91, CHR 0xA4] @ '' User Management Endpoints''),
      ([CHR 0xF0, CHR 0x9F, CHR 0x92, CHR 0x8A] @ '' Medicine Store Endpoints''),
      ([CHR 0xE2, CHR 0x9A, CHR 0x99, CHR 0xEF, CHR 0xB8, CHR 0x8F] @ '' Admin Store Management''),
      ([CHR 0xF0, CHR 0x9F, CHR 0x93, CHR 0xA6] @ '' Items Management''),
      ([CHR 0xF0, CHR 0x9F, CHR 0x97, CHR 0xBA, CHR 0xEF, CHR 0xB8, CHR 0x8F] @ '' Location Services''),
      ([CHR 0xF0, CHR 0x9F, CHR 0x93, CHR 0x8F] @ '' Unit Management''),
      ([CHR 0xF0, CHR 0x9F, CHR 0x92, CHR 0xB0] @ '' GST Rate Management''),
      ([CHR 0xF0, CHR 0x9F, CHR 0x93, CHR 0x8B] @ '' Orders''),
      ([CHR 0xF0, CHR 0x9F, CHR 0x92, CHR 0xB3] @ '' Payments''),
      ([CHR 0xF0, CHR 0x9F, CHR 0x94, CHR 0x94] @ '' Notifications''),
      ([CHR 0xF0, CHR 0x9F, CHR 0x93, CHR 0x8A] @ '' Standard Response Formats'')] \<and>
   length section_titles = 12 \<and>
   styled_texts ''CustomHeading'' elements = ([CHR 0xF0, CHR 0x9F, CHR 0x93, CHR 0x91] @ '' Table of Contents'') # section_titles \<and>
   map (\<lambda>sec. hd (map outline_of (section_blocks sec))) api_sections = map OHeading section_titles \<and>
   map (\<lambda>item. filter (names_topic item) section_titles) toc_items = map (\<lambda>t. [t]) section_titles \<and>
   topic (hd toc_items) = ''Authentication & Authorization'' \<and>
   topic (last toc_items) = ''Response Formats''\<close>
proof -
  have entries: "length toc_items = 12 \<and>
      map entry_number toc_items = [1..<13]"
    by (simp add: toc_items_def entry_number_def upt_rec)
  have listed: "styled_texts ''CustomBody'' (section_blocks table_of_contents) = toc_items"
    by (simp add: table_of_contents_blocks style_names toc_items_def)
  have count: "length section_titles = 12"
    by (simp add: section_titles_eq)
  have all_headings: \<open>styled_texts ''CustomHeading'' elements = ([CHR 0xF0, CHR 0x9F, CHR 0x93, CHR 0x91] @ '' Table of Contents'') # section_titles\<close>
    by (simp add: section_titles_eq headings_outline elements_sections api_sections_def
        section_outlines)
  have heads: "map (\<lambda>sec. hd (map outline_of (section_blocks sec))) api_sections = map OHeading section_titles"
    by (simp add: section_titles_eq api_sections_def section_outlines)
  have order: "map (\<lambda>item. filter (names_topic item) section_titles) toc_items = map (\<lambda>t. [t]) section_titles"
    by (simp add: section_titles_eq toc_items_def names_topic_def topic_def)
  have ends: "topic (hd toc_items) = ''Authentication & Authorization'' \<and>
      topic (last toc_items) = ''Response Formats''"
    by (simp add: toc_items_def topic_def)
  from entries listed section_titles_eq count all_headings heads order ends show ?thesis
    by (intro conjI) simp_all
qed

end
